theory Spec2Isabelle
  imports Complex_Main
begin

section \<open>The battery model (\<open>src/bess_model.py\<close>)\<close>

text \<open>
  Python floats are idealised as exact reals wherever a statement is about which
  expression the program computes. The guarantee on the stored energy depends on how
  each operation rounds; for it the two methods are modelled a second time, in
  binary64 arithmetic, in the section after this one.

  An exception is a value: a call returns an outcome (\<open>Inl\<close> the exception raised,
  \<open>Inr\<close> the value returned) together with the object as the call left it. The object
  is mutable, so what a call assigned before it raised stays assigned.
\<close>

datatype error =
    ValueError string
  | TypeError string
  | AttributeError string
  | ZeroDivisionError

text \<open>The attributes of \<open>BatteryEnergyStorageSystem\<close>, in the order \<open>__init__\<close> sets them.\<close>

record BESS =
  battery_capacity :: real
  battery_power :: real
  charging_efficiency :: real
  discharging_efficiency :: real
  min_soc :: real
  max_soc :: real
  existing_energy :: real
  soc :: real
  total_charged :: real
  total_discharged :: real
  total_losses :: real

text \<open>
  \<open>__init__\<close> (lines 9-48) assigns its arguments and has no \<open>raise\<close>: its outcome is
  always an instance.
\<close>

definition init :: "real \<Rightarrow> real \<Rightarrow> real \<Rightarrow> real \<Rightarrow> real \<Rightarrow> real \<Rightarrow> real \<Rightarrow> error + BESS" where
  "init capacity rated_power initial_soc ch_eff dis_eff mn mx =
     Inr \<lparr> battery_capacity = capacity,
           battery_power = rated_power,
           charging_efficiency = ch_eff,
           discharging_efficiency = dis_eff,
           min_soc = mn,
           max_soc = mx,
           existing_energy = initial_soc * capacity,
           soc = initial_soc,
           total_charged = 0,
           total_discharged = 0,
           total_losses = 0 \<rparr>"

text \<open>
  \<open>charge\<close> (lines 50-97). The value returned is the tuple
  \<open>(actual_charging_power, actual_charged_energy, existing_energy, soc)\<close>.
  Line 91 divides by \<open>battery_capacity\<close>: with a zero capacity Python raises
  \<open>ZeroDivisionError\<close> there, after line 90 has already stored the new energy and
  before the counters of lines 94-95 are touched. (The arguments are Python numbers;
  the infinities and NaN that numpy scalars give instead are not reals.)
\<close>

definition charge :: "BESS \<Rightarrow> real \<Rightarrow> real \<Rightarrow> (error + real \<times> real \<times> real \<times> real) \<times> BESS" where
  "charge b charging_power charging_time =
     (if charging_power < 0 then (Inl (ValueError ''Charging power must be positive!''), b)
      else
        let actual_charging_power = min charging_power (battery_power b);
            charged_energy = actual_charging_power * charging_time;
            unclipped_energy = charging_efficiency b * charged_energy;
            charging_availability = max_soc b * battery_capacity b - existing_energy b;
            actual_charged_energy =
              (if unclipped_energy > charging_availability then charging_availability
               else unclipped_energy);
            b1 = b\<lparr>existing_energy := existing_energy b + actual_charged_energy\<rparr>
        in if battery_capacity b1 = 0 then (Inl ZeroDivisionError, b1)
           else
             let b2 = b1\<lparr>soc := existing_energy b1 / battery_capacity b1\<rparr>;
                 b3 = b2\<lparr>total_charged := total_charged b2 + actual_charged_energy\<rparr>;
                 b4 = b3\<lparr>total_losses := total_losses b3 + charged_energy - actual_charged_energy\<rparr>
             in (Inr (actual_charging_power, actual_charged_energy, existing_energy b4, soc b4), b4))"

text \<open>\<open>discharge\<close> (lines 99-137), with the same division at line 131.\<close>

definition discharge :: "BESS \<Rightarrow> real \<Rightarrow> real \<Rightarrow> (error + real \<times> real \<times> real \<times> real) \<times> BESS" where
  "discharge b discharging_power discharging_time =
     (if discharging_power < 0 then (Inl (ValueError ''Discharging power must be positive!''), b)
      else
        let actual_discharging_power = min discharging_power (battery_power b);
            unclipped_energy =
              actual_discharging_power * discharging_time * discharging_efficiency b;
            discharging_availability = existing_energy b - min_soc b * battery_capacity b;
            actual_discharged_energy =
              (if unclipped_energy > discharging_availability then discharging_availability
               else unclipped_energy);
            b1 = b\<lparr>existing_energy := existing_energy b - actual_discharged_energy\<rparr>
        in if battery_capacity b1 = 0 then (Inl ZeroDivisionError, b1)
           else
             let b2 = b1\<lparr>soc := existing_energy b1 / battery_capacity b1\<rparr>;
                 b3 = b2\<lparr>total_discharged := total_discharged b2 + actual_discharged_energy\<rparr>;
                 b4 = b3\<lparr>total_losses := total_losses b3
                          + actual_discharging_power * discharging_time
                            * (1 - discharging_efficiency b3)\<rparr>
             in (Inr (actual_discharging_power, actual_discharged_energy,
                      existing_energy b4, soc b4), b4))"

text \<open>\<open>get_battery_state\<close> (lines 139-149): the five values of the returned dict, by key.\<close>

record battery_state =
  state_soc :: real
  state_existing_energy :: real
  state_total_charged :: real
  state_total_discharged :: real
  state_total_losses :: real

definition get_battery_state :: "BESS \<Rightarrow> battery_state" where
  "get_battery_state b =
     \<lparr> state_soc = soc b,
       state_existing_energy = existing_energy b,
       state_total_charged = total_charged b,
       state_total_discharged = total_discharged b,
       state_total_losses = total_losses b \<rparr>"

text \<open>
  A caller's sequence of calls on one battery. A call that raises leaves the object as
  it was at the \<open>raise\<close>; the caller goes on with the next call. \<open>run_calls\<close> lists the
  battery after each call.
\<close>

datatype command = Charge real real | Discharge real real

fun apply_command :: "BESS \<Rightarrow> command \<Rightarrow> BESS" where
  "apply_command b (Charge p t) = snd (charge b p t)"
| "apply_command b (Discharge p t) = snd (discharge b p t)"

fun run_calls :: "BESS \<Rightarrow> command list \<Rightarrow> BESS list" where
  "run_calls b [] = []"
| "run_calls b (c # cs) = apply_command b c # run_calls (apply_command b c) cs"

fun valid_command :: "command \<Rightarrow> bool" where
  "valid_command (Charge p t) = (0 \<le> p \<and> 0 \<le> t)"
| "valid_command (Discharge p t) = (0 \<le> p \<and> 0 \<le> t)"

definition within_band :: "BESS \<Rightarrow> bool" where
  "within_band b \<longleftrightarrow>
     min_soc b * battery_capacity b \<le> existing_energy b \<and>
     existing_energy b \<le> max_soc b * battery_capacity b"


section \<open>The battery in binary64 arithmetic\<close>

text \<open>
  A Python float is an IEEE 754 binary64 number, and each arithmetic operation returns
  the exact result rounded to the nearest such number, ties to the even significand.
  \<open>binary64\<close> is this rounding with an exponent range that has no end: it agrees with
  the hardware wherever a result neither overflows nor falls below the normal range.
  \<open>exponent x\<close> is the \<open>e\<close> with \<open>2 ^ e \<le> \<bar>x\<bar> < 2 ^ (e + 1)\<close>, and a significand has 53
  bits, so the numbers of that binade are the multiples of \<open>2 ^ (e - 52)\<close>.
\<close>

function bit_length :: "int \<Rightarrow> int" where
  "bit_length n = (if n \<le> 0 then 0 else 1 + bit_length (n div 2))"
  by pat_completeness auto
termination
  by (relation "measure nat") auto

declare bit_length.simps [simp del]

definition pow2 :: "int \<Rightarrow> real" where
  "pow2 e = (if 0 \<le> e then 2 ^ nat e else 1 / 2 ^ nat (- e))"

definition exponent :: "real \<Rightarrow> int" where
  "exponent x =
     (let a = \<bar>x\<bar> in
      if 1 \<le> a then bit_length \<lfloor>a\<rfloor> - 1
      else
        let k = bit_length \<lfloor>1 / a\<rfloor> - 1
        in if a * pow2 k = 1 then - k else - (k + 1))"

definition round_half_even :: "real \<Rightarrow> int" where
  "round_half_even q =
     (let n = \<lfloor>q\<rfloor>; r = q - of_int n
      in if r < 1 / 2 then n
         else if r > 1 / 2 then n + 1
         else if even n then n else n + 1)"

definition binary64 :: "real \<Rightarrow> real" where
  "binary64 x =
     (if x = 0 then 0
      else let ulp = pow2 (exponent x - 52)
           in of_int (round_half_even (x / ulp)) * ulp)"

text \<open>Python's \<open>+\<close>, \<open>-\<close>, \<open>*\<close> and \<open>/\<close> on floats.\<close>

definition add64 :: "real \<Rightarrow> real \<Rightarrow> real" where
  "add64 a b = binary64 (a + b)"

definition sub64 :: "real \<Rightarrow> real \<Rightarrow> real" where
  "sub64 a b = binary64 (a - b)"

definition mul64 :: "real \<Rightarrow> real \<Rightarrow> real" where
  "mul64 a b = binary64 (a * b)"

definition div64 :: "real \<Rightarrow> real \<Rightarrow> real" where
  "div64 a b = binary64 (a / b)"

text \<open>
  \<open>__init__\<close>, \<open>charge\<close> and \<open>discharge\<close> once more, statement by statement as above, with
  every operation rounded and in Python's order of evaluation (\<open>a + b - c\<close> is
  \<open>(a + b) - c\<close>, \<open>a * b * c\<close> is \<open>(a * b) * c\<close>). The arguments are floats: a literal such
  as \<open>0.1\<close> is \<open>binary64 (1 / 10)\<close>.
\<close>

definition init64 :: "real \<Rightarrow> real \<Rightarrow> real \<Rightarrow> real \<Rightarrow> real \<Rightarrow> real \<Rightarrow> real \<Rightarrow> error + BESS" where
  "init64 capacity rated_power initial_soc ch_eff dis_eff mn mx =
     Inr \<lparr> battery_capacity = capacity,
           battery_power = rated_power,
           charging_efficiency = ch_eff,
           discharging_efficiency = dis_eff,
           min_soc = mn,
           max_soc = mx,
           existing_energy = mul64 initial_soc capacity,
           soc = initial_soc,
           total_charged = 0,
           total_discharged = 0,
           total_losses = 0 \<rparr>"

definition charge64 :: "BESS \<Rightarrow> real \<Rightarrow> real \<Rightarrow> (error + real \<times> real \<times> real \<times> real) \<times> BESS" where
  "charge64 b charging_power charging_time =
     (if charging_power < 0 then (Inl (ValueError ''Charging power must be positive!''), b)
      else
        let actual_charging_power = min charging_power (battery_power b);
            charged_energy = mul64 actual_charging_power charging_time;
            unclipped_energy = mul64 (charging_efficiency b) charged_energy;
            charging_availability =
              sub64 (mul64 (max_soc b) (battery_capacity b)) (existing_energy b);
            actual_charged_energy =
              (if unclipped_energy > charging_availability then charging_availability
               else unclipped_energy);
            b1 = b\<lparr>existing_energy := add64 (existing_energy b) actual_charged_energy\<rparr>
        in if battery_capacity b1 = 0 then (Inl ZeroDivisionError, b1)
           else
             let b2 = b1\<lparr>soc := div64 (existing_energy b1) (battery_capacity b1)\<rparr>;
                 b3 = b2\<lparr>total_charged := add64 (total_charged b2) actual_charged_energy\<rparr>;
                 b4 = b3\<lparr>total_losses :=
                          sub64 (add64 (total_losses b3) charged_energy)
                            actual_charged_energy\<rparr>
             in (Inr (actual_charging_power, actual_charged_energy, existing_energy b4, soc b4),
                 b4))"

definition discharge64 :: "BESS \<Rightarrow> real \<Rightarrow> real \<Rightarrow> (error + real \<times> real \<times> real \<times> real) \<times> BESS" where
  "discharge64 b discharging_power discharging_time =
     (if discharging_power < 0 then (Inl (ValueError ''Discharging power must be positive!''), b)
      else
        let actual_discharging_power = min discharging_power (battery_power b);
            unclipped_energy =
              mul64 (mul64 actual_discharging_power discharging_time)
                (discharging_efficiency b);
            discharging_availability =
              sub64 (existing_energy b) (mul64 (min_soc b) (battery_capacity b));
            actual_discharged_energy =
              (if unclipped_energy > discharging_availability then discharging_availability
               else unclipped_energy);
            b1 = b\<lparr>existing_energy := sub64 (existing_energy b) actual_discharged_energy\<rparr>
        in if battery_capacity b1 = 0 then (Inl ZeroDivisionError, b1)
           else
             let b2 = b1\<lparr>soc := div64 (existing_energy b1) (battery_capacity b1)\<rparr>;
                 b3 = b2\<lparr>total_discharged :=
                          add64 (total_discharged b2) actual_discharged_energy\<rparr>;
                 b4 = b3\<lparr>total_losses :=
                          add64 (total_losses b3)
                            (mul64 (mul64 actual_discharging_power discharging_time)
                               (sub64 1 (discharging_efficiency b3)))\<rparr>
             in (Inr (actual_discharging_power, actual_discharged_energy,
                      existing_energy b4, soc b4), b4))"

text \<open>
  The band as a Python expression tests it, with the two products rounded.
  \<open>within_band\<close> above is the same test on the exact products.
\<close>

definition within_band64 :: "BESS \<Rightarrow> bool" where
  "within_band64 b \<longleftrightarrow>
     mul64 (min_soc b) (battery_capacity b) \<le> existing_energy b \<and>
     existing_energy b \<le> mul64 (max_soc b) (battery_capacity b)"

text \<open>
  A configuration inside the bounds that the data model of the specification states
  for a battery.
\<close>

definition config_in_bounds :: "BESS \<Rightarrow> bool" where
  "config_in_bounds b \<longleftrightarrow>
     0 < battery_capacity b \<and> 0 < battery_power b \<and>
     0 < charging_efficiency b \<and> charging_efficiency b \<le> 1 \<and>
     0 < discharging_efficiency b \<and> discharging_efficiency b \<le> 1 \<and>
     0 \<le> min_soc b \<and> min_soc b < max_soc b \<and> max_soc b \<le> 1"


section \<open>The dispatch simulator (\<open>src/run_simulation.py\<close>)\<close>

text \<open>
  A pandas Series is modelled as the list of its values, indexed by position
  (\<open>.iloc\<close>), and a numpy array as a list written by index. The three series are
  taken to carry the same index, so that their subtraction is element by element.

  \<open>np.percentile\<close> is library code. The model is numpy's default (linear) method:
  the value at the fractional position \<open>q / 100 * (n - 1)\<close> of the sorted data,
  interpolated between its two neighbours. The loop below calls it only on a
  series of at least one price.
\<close>

definition percentile :: "real list \<Rightarrow> real \<Rightarrow> real" where
  "percentile a q =
     (let sorted_a = sort a;
          n = length sorted_a;
          position = q / 100 * real (n - 1);
          i = nat \<lfloor>position\<rfloor>;
          gamma = position - real i;
          lower = sorted_a ! i;
          upper = sorted_a ! (min (i + 1) (n - 1))
      in lower + (upper - lower) * gamma)"

text \<open>
  What an hour does to the battery is observed through a trace, which the program does
  not have: each entry is the hour together with either the price branch of the
  \<open>price arbitrage\<close> strategy that the hour entered, or the battery method invoked and the
  power it was asked for. An invocation is logged when the call is made, whether it
  returns or raises.
\<close>

datatype operation = ChargeOp | DischargeOp

datatype branch = LowPrice | HighPrice | MediumPrice

datatype event = Enter branch | Invoke operation real

text \<open>
  The loop's variables: the battery object, the five result arrays of lines 42-46 and
  the trace.
\<close>

record sim_state =
  battery :: BESS
  energy_movement :: "real list"
  battery_soc :: "real list"
  battery_energy :: "real list"
  grid_power :: "real list"
  electricity_cost :: "real list"
  trace :: "(nat \<times> event) list"

definition enter :: "nat \<Rightarrow> branch \<Rightarrow> sim_state \<Rightarrow> sim_state" where
  "enter hour br s = s\<lparr>trace := trace s @ [(hour, Enter br)]\<rparr>"

text \<open>\<open>battery.charge(p)\<close> and \<open>battery.discharge(p)\<close>: the duration is the default \<open>1.0\<close>.\<close>

definition invoke_charge ::
  "nat \<Rightarrow> real \<Rightarrow> sim_state \<Rightarrow> (error + real \<times> real \<times> real \<times> real) \<times> sim_state" where
  "invoke_charge hour p s =
     (case charge (battery s) p 1 of
        (r, b') \<Rightarrow> (r, s\<lparr>battery := b', trace := trace s @ [(hour, Invoke ChargeOp p)]\<rparr>))"

definition invoke_discharge ::
  "nat \<Rightarrow> real \<Rightarrow> sim_state \<Rightarrow> (error + real \<times> real \<times> real \<times> real) \<times> sim_state" where
  "invoke_discharge hour p s =
     (case discharge (battery s) p 1 of
        (r, b') \<Rightarrow> (r, s\<lparr>battery := b', trace := trace s @ [(hour, Invoke DischargeOp p)]\<rparr>))"

text \<open>
  The four assignments that follow every battery call (lines 59-64, 70-75, 132-137,
  143-148): the energy moved, the battery's energy and state of charge read back
  through \<open>get_battery_state\<close>, and the grid power.
\<close>

definition store_hour :: "nat \<Rightarrow> real \<Rightarrow> real \<Rightarrow> sim_state \<Rightarrow> sim_state" where
  "store_hour hour moved grid s =
     s\<lparr> energy_movement := (energy_movement s)[hour := moved],
        battery_energy :=
          (battery_energy s)[hour := state_existing_energy (get_battery_state (battery s))],
        battery_soc := (battery_soc s)[hour := state_soc (get_battery_state (battery s))],
        grid_power := (grid_power s)[hour := grid] \<rparr>"

text \<open>The \<open>simple\<close> strategy, lines 55-75.\<close>

definition simple_strategy :: "nat \<Rightarrow> real \<Rightarrow> sim_state \<Rightarrow> (error + unit) \<times> sim_state" where
  "simple_strategy hour current_net_load s =
     (if current_net_load > 0 then
        (let charging_power = current_net_load in
         case invoke_charge hour charging_power s of
           (Inl e, s1) \<Rightarrow> (Inl e, s1)
         | (Inr (_, actual_charged_energy, _, _), s1) \<Rightarrow>
             (let remaining_PV = current_net_load - actual_charged_energy
              in (Inr (), store_hour hour actual_charged_energy remaining_PV s1)))
      else
        (let discharging_power = - current_net_load in
         case invoke_discharge hour discharging_power s of
           (Inl e, s1) \<Rightarrow> (Inl e, s1)
         | (Inr (_, actual_discharged_energy, _, _), s1) \<Rightarrow>
             (let remaining_dificit = current_net_load + actual_discharged_energy
              in (Inr (), store_hour hour (- actual_discharged_energy) remaining_dificit s1))))"

text \<open>
  The low-price branch, lines 83-101. Line 95 keeps the whole tuple that \<open>charge\<close>
  returns (there is no \<open>[1]\<close>), and line 96 assigns this 4-tuple to one element of a
  float array, which numpy refuses with a \<open>ValueError\<close>. So the branch never reaches
  line 97: it ends in the exception of \<open>charge\<close> or in this one.
\<close>

definition low_price_branch :: "nat \<Rightarrow> real \<Rightarrow> sim_state \<Rightarrow> (error + unit) \<times> sim_state" where
  "low_price_branch hour current_net_load s =
     (let s0 = enter hour LowPrice s;
          charging_power =
            (if current_net_load > 0 then current_net_load else battery_power (battery s0))
      in case invoke_charge hour charging_power s0 of
           (Inl e, s1) \<Rightarrow> (Inl e, s1)
         | (Inr actual_charged_energy, s1) \<Rightarrow>
             (Inl (ValueError ''setting an array element with a sequence.''), s1))"

text \<open>
  The high-price branch, lines 104-124. Line 114 reads the attribute \<open>batter_power\<close>,
  which the battery does not have. Line 118 keeps the whole tuple again, and line 119
  negates it, a \<open>TypeError\<close>.
\<close>

definition high_price_branch :: "nat \<Rightarrow> real \<Rightarrow> sim_state \<Rightarrow> (error + unit) \<times> sim_state" where
  "high_price_branch hour current_net_load s =
     (let s0 = enter hour HighPrice s in
      case (if current_net_load < 0 then Inr (- current_net_load)
            else if soc (battery s0) > 1 / 10
            then Inl (AttributeError ''object has no attribute batter_power'')
            else Inr 0) of
        Inl e \<Rightarrow> (Inl e, s0)
      | Inr discharging_power \<Rightarrow>
          (case invoke_discharge hour discharging_power s0 of
             (Inl e, s1) \<Rightarrow> (Inl e, s1)
           | (Inr actual_discharged_energy, s1) \<Rightarrow>
               (Inl (TypeError ''bad operand type for unary -: tuple''), s1)))"

text \<open>
  The medium-price branch, lines 127-148: the text of the \<open>simple\<close> strategy, except
  that line 141 asks \<open>discharge\<close> for \<open>current_net_load\<close> where line 68 asks for
  \<open>- current_net_load\<close>.
\<close>

definition medium_price_branch :: "nat \<Rightarrow> real \<Rightarrow> sim_state \<Rightarrow> (error + unit) \<times> sim_state" where
  "medium_price_branch hour current_net_load s =
     (let s0 = enter hour MediumPrice s in
      if current_net_load > 0 then
        (let charging_power = current_net_load in
         case invoke_charge hour charging_power s0 of
           (Inl e, s1) \<Rightarrow> (Inl e, s1)
         | (Inr (_, actual_charged_energy, _, _), s1) \<Rightarrow>
             (let remaining_PV = current_net_load - actual_charged_energy
              in (Inr (), store_hour hour actual_charged_energy remaining_PV s1)))
      else
        (let discharging_power = current_net_load in
         case invoke_discharge hour discharging_power s0 of
           (Inl e, s1) \<Rightarrow> (Inl e, s1)
         | (Inr (_, actual_discharged_energy, _, _), s1) \<Rightarrow>
             (let remaining_dificit = current_net_load + actual_discharged_energy
              in (Inr (), store_hour hour (- actual_discharged_energy) remaining_dificit s1))))"

text \<open>
  The \<open>price arbitrage\<close> strategy, lines 77-148. The two tests are separate statements:
  \<open>if current_price <= price_threshold_low\<close> at line 82, and then
  \<open>if current_price > price_threshold_high ... else\<close> at lines 103-126, which runs
  whenever the first statement has not raised.
\<close>

definition price_arbitrage_strategy ::
  "real list \<Rightarrow> nat \<Rightarrow> real \<Rightarrow> real \<Rightarrow> sim_state \<Rightarrow> (error + unit) \<times> sim_state" where
  "price_arbitrage_strategy electricity_prices hour current_net_load current_price s =
     (let price_threshold_low = percentile electricity_prices 25;
          price_threshold_high = percentile electricity_prices 75
      in case (if current_price \<le> price_threshold_low
               then low_price_branch hour current_net_load s
               else (Inr (), s)) of
           (Inl e, s1) \<Rightarrow> (Inl e, s1)
         | (Inr _, s1) \<Rightarrow>
             if current_price > price_threshold_high
             then high_price_branch hour current_net_load s1
             else medium_price_branch hour current_net_load s1)"

text \<open>
  The body of the loop, lines 50-158. A strategy string that is neither \<open>simple\<close> nor
  \<open>price arbitrage\<close> matches no branch and leaves the hour's array cells as they are.
  The grid connection limit is read and ignored (lines 151-152).
\<close>

definition hour_body ::
  "string \<Rightarrow> real option \<Rightarrow> real list \<Rightarrow> real list \<Rightarrow> nat \<Rightarrow> sim_state
     \<Rightarrow> (error + unit) \<times> sim_state" where
  "hour_body control_strategy grid_connection_limit electricity_prices net_load hour s =
     (let current_net_load = net_load ! hour;
          current_price = electricity_prices ! hour
      in case (if control_strategy = ''simple''
               then simple_strategy hour current_net_load s
               else if control_strategy = ''price arbitrage''
               then price_arbitrage_strategy electricity_prices hour current_net_load
                      current_price s
               else (Inr (), s)) of
           (Inl e, s1) \<Rightarrow> (Inl e, s1)
         | (Inr _, s1) \<Rightarrow>
             (Inr (), s1\<lparr>electricity_cost :=
                           (electricity_cost s1)[hour := grid_power s1 ! hour * current_price]\<rparr>))"

text \<open>\<open>for hour in range(len(net_load))\<close>: an exception ends the loop.\<close>

fun hours_loop ::
  "string \<Rightarrow> real option \<Rightarrow> real list \<Rightarrow> real list \<Rightarrow> nat list \<Rightarrow> sim_state
     \<Rightarrow> (error + unit) \<times> sim_state" where
  "hours_loop control_strategy limit electricity_prices net_load [] s = (Inr (), s)"
| "hours_loop control_strategy limit electricity_prices net_load (hour # hours) s =
     (case hour_body control_strategy limit electricity_prices net_load hour s of
        (Inl e, s1) \<Rightarrow> (Inl e, s1)
      | (Inr _, s1) \<Rightarrow> hours_loop control_strategy limit electricity_prices net_load hours s1)"

text \<open>The returned DataFrame, by column (lines 32-37 and 161-165).\<close>

record results =
  df_timestamp :: "nat list"
  df_pv_generation :: "real list"
  df_building_demand :: "real list"
  df_electricity_prices :: "real list"
  df_energy_movement :: "real list"
  df_battery_soc :: "real list"
  df_battery_energy :: "real list"
  df_grid_power :: "real list"
  df_electricity_cost :: "real list"

definition zeros :: "nat \<Rightarrow> real list" where
  "zeros n = replicate n 0"

definition initial_state :: "BESS \<Rightarrow> nat \<Rightarrow> sim_state" where
  "initial_state b n =
     \<lparr> battery = b, energy_movement = zeros n, battery_soc = zeros n,
       battery_energy = zeros n, grid_power = zeros n, electricity_cost = zeros n,
       trace = [] \<rparr>"

text \<open>
  \<open>run_simulation\<close>, lines 4-167. The outcome is the DataFrame or the exception; with
  it come the battery as the run left it and the trace of the run.
\<close>

definition run_simulation ::
  "BESS \<Rightarrow> real list \<Rightarrow> real list \<Rightarrow> real list \<Rightarrow> string \<Rightarrow> real option
     \<Rightarrow> (error + results) \<times> BESS \<times> (nat \<times> event) list" where
  "run_simulation b pv_generation building_demand electricity_prices control_strategy
     grid_connection_limit =
     (if \<not> (length pv_generation = length building_demand
             \<and> length building_demand = length electricity_prices)
      then (Inl (ValueError ''Input data series must have the same length!''), b, [])
      else
        let net_load = map2 (\<lambda>pv demand. pv - demand) pv_generation building_demand;
            n = length net_load
        in case hours_loop control_strategy grid_connection_limit electricity_prices net_load
                  [0..<n] (initial_state b n) of
             (Inl e, s) \<Rightarrow> (Inl e, battery s, trace s)
           | (Inr _, s) \<Rightarrow>
               (Inr \<lparr> df_timestamp = [0..<n],
                      df_pv_generation = pv_generation,
                      df_building_demand = building_demand,
                      df_electricity_prices = electricity_prices,
                      df_energy_movement = energy_movement s,
                      df_battery_soc = battery_soc s,
                      df_battery_energy = battery_energy s,
                      df_grid_power = grid_power s,
                      df_electricity_cost = electricity_cost s \<rparr>,
                battery s, trace s))"


section \<open>Vocabulary of the statements\<close>

subsection \<open>Battery\<close>


text \<open>The power rating and both efficiencies are not negative.\<close>

definition config_nonnegative :: "BESS \<Rightarrow> bool" where
  "config_nonnegative b \<longleftrightarrow>
     0 \<le> battery_power b \<and> 0 \<le> charging_efficiency b \<and> 0 \<le> discharging_efficiency b"

text \<open>Both efficiencies lie between 0 and 1.\<close>

definition efficiencies_in_unit :: "BESS \<Rightarrow> bool" where
  "efficiencies_in_unit b \<longleftrightarrow>
     0 \<le> charging_efficiency b \<and> charging_efficiency b \<le> 1 \<and>
     0 \<le> discharging_efficiency b \<and> discharging_efficiency b \<le> 1"

text \<open>Two batteries with the same six constructor parameters.\<close>

definition same_config :: "BESS \<Rightarrow> BESS \<Rightarrow> bool" where
  "same_config b b' \<longleftrightarrow>
     battery_capacity b' = battery_capacity b \<and> battery_power b' = battery_power b \<and>
     charging_efficiency b' = charging_efficiency b \<and>
     discharging_efficiency b' = discharging_efficiency b \<and>
     min_soc b' = min_soc b \<and> max_soc b' = max_soc b"

subsection \<open>Simulator\<close>

definition known_strategy :: "string \<Rightarrow> bool" where
  "known_strategy cs \<longleftrightarrow> cs = ''simple'' \<or> cs = ''price arbitrage''"

text \<open>The three cells of an hour that the statements are about.\<close>

definition cells :: "nat \<Rightarrow> sim_state \<Rightarrow> real \<times> real \<times> real" where
  "cells i s = (energy_movement s ! i, grid_power s ! i, electricity_cost s ! i)"

definition arrays_of_length :: "nat \<Rightarrow> sim_state \<Rightarrow> bool" where
  "arrays_of_length n s \<longleftrightarrow>
     length (energy_movement s) = n \<and> length (grid_power s) = n \<and>
     length (electricity_cost s) = n"

text \<open>
  What a strategy that completed an hour has done to the arrays: it stored an energy
  movement and, as grid power, the net load less that movement; the movement is at
  most the surplus, or at most the deficit, when the efficiencies are in range.
\<close>

definition hour_settled :: "nat \<Rightarrow> real \<Rightarrow> sim_state \<Rightarrow> sim_state \<Rightarrow> bool" where
  "hour_settled hour current_net_load s s' \<longleftrightarrow>
     (\<exists>moved.
        energy_movement s' = (energy_movement s)[hour := moved] \<and>
        grid_power s' = (grid_power s)[hour := current_net_load - moved] \<and>
        electricity_cost s' = electricity_cost s \<and>
        same_config (battery s) (battery s') \<and>
        (efficiencies_in_unit (battery s) \<longrightarrow>
           (current_net_load > 0 \<longrightarrow> moved \<le> current_net_load) \<and>
           (current_net_load \<le> 0 \<longrightarrow> current_net_load \<le> moved)))"

text \<open>
  What the cells \<open>(moved, grid, cost)\<close> of a completed hour satisfy; \<open>eff\<close> says
  whether the battery's efficiencies are in range.
\<close>

definition hour_recorded ::
  "string \<Rightarrow> bool \<Rightarrow> real \<Rightarrow> real \<Rightarrow> real \<times> real \<times> real \<Rightarrow> bool" where
  "hour_recorded cs eff current_net_load current_price c \<longleftrightarrow>
     (case c of (moved, grid, cost) \<Rightarrow>
        cost = grid * current_price \<and>
        (known_strategy cs \<longrightarrow>
           moved + grid = current_net_load \<and>
           (eff \<longrightarrow> (current_net_load > 0 \<longrightarrow> 0 \<le> grid) \<and>
                    (current_net_load \<le> 0 \<longrightarrow> grid \<le> 0))))"

text \<open>Two states of the loop that differ at most in the trace.\<close>

definition agree_but_trace :: "sim_state \<Rightarrow> sim_state \<Rightarrow> bool" where
  "agree_but_trace s s' \<longleftrightarrow>
     battery s = battery s' \<and> energy_movement s = energy_movement s' \<and>
     battery_soc s = battery_soc s' \<and> battery_energy s = battery_energy s' \<and>
     grid_power s = grid_power s' \<and> electricity_cost s = electricity_cost s'"

text \<open>The events of one hour in a trace, its battery calls and the branches it entered.\<close>

fun is_invoke :: "event \<Rightarrow> bool" where
  "is_invoke (Invoke _ _) = True"
| "is_invoke (Enter _) = False"

definition events_of_hour :: "nat \<Rightarrow> (nat \<times> event) list \<Rightarrow> event list" where
  "events_of_hour hour T = map snd (filter (\<lambda>x. fst x = hour) T)"

definition invocations :: "nat \<Rightarrow> (nat \<times> event) list \<Rightarrow> event list" where
  "invocations hour T = filter is_invoke (events_of_hour hour T)"

definition branches_entered :: "nat \<Rightarrow> (nat \<times> event) list \<Rightarrow> event list" where
  "branches_entered hour T = filter (\<lambda>e. \<not> is_invoke e) (events_of_hour hour T)"

text \<open>
  The events of one hour under \<open>price arbitrage\<close>, for thresholds \<open>low\<close> and \<open>high\<close>:
  at most one battery call, at most one branch, and each branch only at its prices.
\<close>

definition arbitrage_events :: "real \<Rightarrow> real \<Rightarrow> real \<Rightarrow> event list \<Rightarrow> bool" where
  "arbitrage_events low high price es \<longleftrightarrow>
     length (filter is_invoke es) \<le> 1 \<and>
     length (filter (\<lambda>e. \<not> is_invoke e) es) \<le> 1 \<and>
     (Enter LowPrice \<in> set es \<longrightarrow> price \<le> low) \<and>
     (Enter HighPrice \<in> set es \<longrightarrow> low < price \<and> high < price) \<and>
     (Enter MediumPrice \<in> set es \<longrightarrow> low < price \<and> price \<le> high)"

subsection \<open>Example data\<close>

text \<open>
  \<open>BatteryEnergyStorageSystem(100, 50, 0.5, 0.9, 0.9, 0.1, 1)\<close>: 100 kWh, 50 kW, half
  full, 90 per cent efficient each way.
\<close>

definition example_battery :: BESS where
  "example_battery =
     \<lparr> battery_capacity = 100, battery_power = 50, charging_efficiency = 9 / 10,
       discharging_efficiency = 9 / 10, min_soc = 1 / 10, max_soc = 1,
       existing_energy = 50, soc = 1 / 2,
       total_charged = 0, total_discharged = 0, total_losses = 0 \<rparr>"

text \<open>
  \<open>BatteryEnergyStorageSystem(3, 50, 1, 0.9, 0.9, 0.1, 1)\<close> in floats: 3 kWh, full.
\<close>

definition small_battery :: BESS where
  "small_battery =
     \<lparr> battery_capacity = 3, battery_power = 50,
       charging_efficiency = binary64 (9 / 10),
       discharging_efficiency = binary64 (9 / 10),
       min_soc = binary64 (1 / 10), max_soc = 1,
       existing_energy = 3, soc = 1,
       total_charged = 0, total_discharged = 0, total_losses = 0 \<rparr>"

text \<open>
  \<open>BatteryEnergyStorageSystem(13.5, 50, 0.3, 0.9, 0.9, 0.1, 0.9)\<close> in floats: 13.5 kWh
  at 30 per cent, which is the float \<open>4.05\<close>.
\<close>

definition home_battery :: BESS where
  "home_battery =
     \<lparr> battery_capacity = 27 / 2, battery_power = 50,
       charging_efficiency = binary64 (9 / 10),
       discharging_efficiency = binary64 (9 / 10),
       min_soc = binary64 (1 / 10), max_soc = binary64 (9 / 10),
       existing_energy = 4559894622712627 / 1125899906842624, soc = binary64 (3 / 10),
       total_charged = 0, total_discharged = 0, total_losses = 0 \<rparr>"

text \<open>\<open>BatteryEnergyStorageSystem(0, 50, 0.5, 0.9, 0.9, 0.1, 1)\<close>: no capacity.\<close>

definition zero_capacity_battery :: BESS where
  "zero_capacity_battery =
     \<lparr> battery_capacity = 0, battery_power = 50, charging_efficiency = 9 / 10,
       discharging_efficiency = 9 / 10, min_soc = 1 / 10, max_soc = 1,
       existing_energy = 0, soc = 1 / 2,
       total_charged = 0, total_discharged = 0, total_losses = 0 \<rparr>"

text \<open>
  The table of the \<open>simple\<close> run on \<open>example_battery\<close> with PV \<open>[10, 0, 0]\<close>, demand
  \<open>[0, 5, 5]\<close> and prices \<open>[2, 3, 4]\<close>.
\<close>

definition example_results :: results where
  "example_results =
     \<lparr> df_timestamp = [0, 1, 2], df_pv_generation = [10, 0, 0],
       df_building_demand = [0, 5, 5], df_electricity_prices = [2, 3, 4],
       df_energy_movement = [9, - (9 / 2), - (9 / 2)],
       df_battery_soc = [59 / 100, 109 / 200, 1 / 2],
       df_battery_energy = [59, 109 / 2, 50],
       df_grid_power = [1, - (1 / 2), - (1 / 2)],
       df_electricity_cost = [2, - (3 / 2), - 2] \<rparr>"


section \<open>The battery: construction, errors and one call\<close>

text \<open>
  C4, as amended. Construction checks nothing: for all seven arguments, in range or
  not, \<open>__init__\<close> returns a battery that holds the arguments as given, the stored
  energy \<open>initial_soc * battery_capacity\<close>, and three counters at zero.
\<close>

theorem init_always_constructs:
  "\<exists>b. init capacity rated_power initial_soc ch_eff dis_eff mn mx = Inr b \<and>
        battery_capacity b = capacity \<and> battery_power b = rated_power \<and>
        charging_efficiency b = ch_eff \<and> discharging_efficiency b = dis_eff \<and>
        min_soc b = mn \<and> max_soc b = mx \<and>
        existing_energy b = initial_soc * capacity \<and> soc b = initial_soc \<and>
        total_charged b = 0 \<and> total_discharged b = 0 \<and> total_losses b = 0"
  by (simp add: init_def)

text \<open>
  C4 as stated fails: three constructions that the claim says are refused, one with
  \<open>min_soc > max_soc\<close>, one with a charging efficiency of 2 and a discharging
  efficiency of 0, one with no capacity and a negative power rating. Each returns a
  battery.
\<close>

theorem init_validation_counterexample:
  "init 100 50 (1 / 2) 1 1 (9 / 10) (1 / 10) =
     Inr \<lparr> battery_capacity = 100, battery_power = 50, charging_efficiency = 1,
           discharging_efficiency = 1, min_soc = 9 / 10, max_soc = 1 / 10,
           existing_energy = 50, soc = 1 / 2,
           total_charged = 0, total_discharged = 0, total_losses = 0 \<rparr> \<and>
   \<not> isl (init 100 50 (1 / 2) 2 0 (1 / 10) 1) \<and>
   \<not> isl (init 0 (- 5) (1 / 2) 1 1 (1 / 10) 1)"
  by (simp add: init_def)

text \<open>
  C5, as amended. A call of \<open>charge\<close> or \<open>discharge\<close> with a negative power raises
  \<open>ValueError\<close>, whatever the duration. A call with a power that is not negative
  never raises \<open>ValueError\<close>, whatever the duration: the duration is not checked.
\<close>

theorem negative_power_raises:
  "(p < 0 \<longrightarrow>
      fst (charge b p t) = Inl (ValueError ''Charging power must be positive!'') \<and>
      fst (discharge b p t) = Inl (ValueError ''Discharging power must be positive!'')) \<and>
   (0 \<le> p \<longrightarrow>
      fst (charge b p t) \<noteq> Inl (ValueError m) \<and>
      fst (discharge b p t) \<noteq> Inl (ValueError m))"
  by (simp add: charge_def discharge_def Let_def)

text \<open>C5, witnessed at the powers \<open>- 1\<close> and 5, the second with the duration \<open>- 1\<close>.\<close>

theorem negative_power_raises_witness:
  "(- 1 :: real) < 0 \<and>
   fst (charge example_battery (- 1) 1) = Inl (ValueError ''Charging power must be positive!'') \<and>
   fst (discharge example_battery (- 1) 1) =
     Inl (ValueError ''Discharging power must be positive!'') \<and>
   (0 :: real) \<le> 5 \<and>
   fst (charge example_battery 5 (- 1)) \<noteq> Inl (ValueError ''Charging power must be positive!'') \<and>
   fst (discharge example_battery 5 (- 1)) \<noteq>
     Inl (ValueError ''Discharging power must be positive!'')"
  using negative_power_raises [of "- 1" example_battery 1]
    negative_power_raises [of 5 example_battery "- 1" "''Charging power must be positive!''"]
    negative_power_raises [of 5 example_battery "- 1" "''Discharging power must be positive!''"]
  by simp

text \<open>
  C5 as stated fails on the duration: \<open>charge(5, -1)\<close> returns. It takes 4.5 kWh out of
  the battery and reports a charged energy of \<open>- 4.5\<close>.
\<close>

theorem negative_duration_counterexample:
  "charge example_battery 5 (- 1) =
     (Inr (5, - (9 / 2), 91 / 2, 91 / 200),
      example_battery \<lparr> existing_energy := 91 / 2, soc := 91 / 200,
                         total_charged := - (9 / 2), total_losses := - (1 / 2) \<rparr>)"
  by (simp add: charge_def example_battery_def Let_def)

text \<open>
  C10. A call of \<open>charge\<close> or \<open>discharge\<close> with a negative power leaves the battery as
  it was: every attribute, so the stored energy, the state of charge and the three
  counters, keeps its value.
\<close>

theorem failed_call_leaves_battery:
  "p < 0 \<Longrightarrow> snd (charge b p t) = b \<and> snd (discharge b p t) = b"
  by (simp add: charge_def discharge_def)

text \<open>C10, witnessed at the power \<open>- 1\<close>.\<close>

theorem failed_call_leaves_battery_witness:
  "(- 1 :: real) < 0 \<and>
   snd (charge example_battery (- 1) 1) = example_battery \<and>
   snd (discharge example_battery (- 1) 1) = example_battery \<and>
   get_battery_state (snd (charge example_battery (- 1) 1)) = get_battery_state example_battery"
  using failed_call_leaves_battery [of "- 1" example_battery 1]
  by simp

subsection \<open>What a call returns\<close>

lemma charge_returns:
  "0 \<le> p \<Longrightarrow> battery_capacity b \<noteq> 0 \<Longrightarrow>
   fst (charge b p t) =
     Inr (min p (battery_power b),
          min (charging_efficiency b * (min p (battery_power b) * t))
              (max_soc b * battery_capacity b - existing_energy b),
          existing_energy (snd (charge b p t)), soc (snd (charge b p t)))"
  by (simp add: charge_def Let_def min_def)

lemma charge_raises:
  "0 \<le> p \<Longrightarrow> battery_capacity b = 0 \<Longrightarrow> fst (charge b p t) = Inl ZeroDivisionError"
  by (simp add: charge_def Let_def)

text \<open>
  C6, as amended. A call of \<open>charge\<close> with a power that is not negative returns unless
  the capacity is zero. The power it returns is the request cut to the power rating,
  and the energy it returns is at most that power times the duration times the
  charging efficiency, with equality unless this product exceeds the headroom
  \<open>max_soc * battery_capacity - existing_energy\<close>, in which case it is the headroom.
  When the duration and the efficiency are not negative, the energy is also at most
  the requested power times the duration times the efficiency.
\<close>

theorem charge_applied_energy_bound:
  "0 \<le> p \<Longrightarrow>
   (case fst (charge b p t) of
      Inr (applied_power, applied_energy, _, _) \<Rightarrow>
        applied_power = min p (battery_power b) \<and>
        applied_energy \<le> applied_power * t * charging_efficiency b \<and>
        (applied_energy = applied_power * t * charging_efficiency b \<or>
         (applied_power * t * charging_efficiency b
            > max_soc b * battery_capacity b - existing_energy b \<and>
          applied_energy = max_soc b * battery_capacity b - existing_energy b)) \<and>
        (0 \<le> t \<and> 0 \<le> charging_efficiency b \<longrightarrow>
           applied_energy \<le> p * t * charging_efficiency b)
    | Inl e \<Rightarrow> e = ZeroDivisionError \<and> battery_capacity b = 0)"
proof (cases "battery_capacity b = 0")
  case True
  assume "0 \<le> p"
  then show ?thesis using True by (simp add: charge_raises)
next
  case False
  assume p: "0 \<le> p"
  let ?m = "min p (battery_power b)"
  let ?u = "?m * t * charging_efficiency b"
  let ?H = "max_soc b * battery_capacity b - existing_energy b"
  have mono: "?u \<le> p * t * charging_efficiency b"
    if "0 \<le> t" "0 \<le> charging_efficiency b"
  proof -
    have "?m * t \<le> p * t"
      by (rule mult_right_mono) (simp_all add: that(1))
    then show ?thesis by (rule mult_right_mono) (rule that(2))
  qed
  have ret: "fst (charge b p t) =
      Inr (?m, min ?u ?H, existing_energy (snd (charge b p t)), soc (snd (charge b p t)))"
    by (simp add: charge_returns[OF p False] mult.commute)
  have le: "min ?u ?H \<le> ?u" by simp
  have eq: "min ?u ?H = ?u \<or> (?u > ?H \<and> min ?u ?H = ?H)"
    by (auto simp: min_def)
  have req: "0 \<le> t \<and> 0 \<le> charging_efficiency b \<longrightarrow>
      min ?u ?H \<le> p * t * charging_efficiency b"
    using mono le by (metis order_trans)
  show ?thesis
    unfolding ret using le eq req by simp
qed

text \<open>
  C6, witnessed by a request of 60 kW for one hour on the example battery: 50 kW are
  applied and 45 kWh stored.
\<close>

theorem charge_applied_energy_bound_witness:
  "(0 :: real) \<le> 60 \<and> (0 :: real) \<le> 1 \<and> 0 \<le> charging_efficiency example_battery \<and>
   fst (charge example_battery 60 1) = Inr (50, 45, 95, 19 / 20) \<and>
   (45 :: real) \<le> 50 * 1 * charging_efficiency example_battery \<and>
   (45 :: real) \<le> 60 * 1 * charging_efficiency example_battery"
  using charge_applied_energy_bound [of 60 example_battery 1]
  by (simp add: charge_def example_battery_def Let_def)

text \<open>
  C6 as stated fails on the equality: of 60 kW requested for one hour, 45 kWh are
  stored, less than \<open>60 * 1 * 0.9 = 54\<close>, although the headroom of 50 kWh clips
  nothing. The power rating of 50 kW does.
\<close>

theorem charge_equality_counterexample:
  "fst (charge example_battery 60 1) = Inr (50, 45, 95, 19 / 20) \<and>
   (45 :: real) \<noteq> 60 * 1 * charging_efficiency example_battery \<and>
   \<not> charging_efficiency example_battery * (min 60 (battery_power example_battery) * 1)
       > max_soc example_battery * battery_capacity example_battery
         - existing_energy example_battery"
  by (simp add: charge_def example_battery_def Let_def)

text \<open>
  C7, as amended. A call of \<open>discharge\<close> with a power that is not negative, on a
  battery whose capacity is not zero, adds to the losses counter exactly the applied
  power times the duration times \<open>1 - discharging_efficiency\<close>, the applied power being
  the request cut to the power rating, whether or not the delivered energy was
  clipped.
\<close>

theorem discharge_losses_increment:
  "0 \<le> p \<Longrightarrow> battery_capacity b \<noteq> 0 \<Longrightarrow>
   total_losses (snd (discharge b p t)) =
     total_losses b + min p (battery_power b) * t * (1 - discharging_efficiency b)"
  by (simp add: discharge_def Let_def)

text \<open>
  C7, witnessed by a request of 60 kW for one hour on the example battery: 45 kWh
  would be delivered, 40 are available, and the loss recorded is 5 kWh.
\<close>

theorem discharge_losses_increment_witness:
  "(0 :: real) \<le> 60 \<and> battery_capacity example_battery \<noteq> 0 \<and>
   fst (discharge example_battery 60 1) = Inr (50, 40, 10, 1 / 10) \<and>
   total_losses (snd (discharge example_battery 60 1)) = 5"
  using discharge_losses_increment [of 60 example_battery 1]
  by (simp add: discharge_def example_battery_def Let_def)

text \<open>
  C7 as stated fails on a battery without capacity, which the constructor accepts:
  line 131 divides by the capacity and raises \<open>ZeroDivisionError\<close> before line 135
  adds the loss, so the counter stays at 0 where the claim says 0.5.
\<close>

theorem discharge_losses_counterexample:
  "init 0 50 (1 / 2) (9 / 10) (9 / 10) (1 / 10) 1 = Inr zero_capacity_battery \<and>
   fst (discharge zero_capacity_battery 5 1) = Inl ZeroDivisionError \<and>
   total_losses (snd (discharge zero_capacity_battery 5 1)) = 0 \<and>
   total_losses zero_capacity_battery
     + min 5 (battery_power zero_capacity_battery) * 1
       * (1 - discharging_efficiency zero_capacity_battery) = 1 / 2 \<and>
   total_losses (snd (discharge zero_capacity_battery 5 1)) \<noteq>
     total_losses zero_capacity_battery
     + min 5 (battery_power zero_capacity_battery) * 1
       * (1 - discharging_efficiency zero_capacity_battery)"
  by (simp add: init_def discharge_def zero_capacity_battery_def Let_def)

subsection \<open>The band of the stored energy\<close>

lemma charge_config: "same_config b (snd (charge b p t))"
  by (simp add: charge_def same_config_def Let_def)

lemma discharge_config: "same_config b (snd (discharge b p t))"
  by (simp add: discharge_def same_config_def Let_def)

lemma charge_energy:
  "0 \<le> p \<Longrightarrow> existing_energy (snd (charge b p t)) =
     existing_energy b + min (charging_efficiency b * (min p (battery_power b) * t))
                             (max_soc b * battery_capacity b - existing_energy b)"
  by (simp add: charge_def Let_def min_def)

lemma discharge_energy:
  "0 \<le> p \<Longrightarrow> existing_energy (snd (discharge b p t)) =
     existing_energy b - min (min p (battery_power b) * t * discharging_efficiency b)
                             (existing_energy b - min_soc b * battery_capacity b)"
  by (simp add: discharge_def Let_def min_def)

lemma charge_within_band:
  assumes "within_band b" "0 \<le> battery_power b" "0 \<le> charging_efficiency b"
    "0 \<le> p" "0 \<le> t"
  shows "within_band (snd (charge b p t))"
proof -
  have "0 \<le> charging_efficiency b * (min p (battery_power b) * t)"
    using assms by simp
  moreover have "same_config b (snd (charge b p t))" by (rule charge_config)
  ultimately show ?thesis
    using assms(1)
    by (simp add: within_band_def same_config_def charge_energy[OF assms(4)] min_def)
qed

lemma discharge_within_band:
  assumes "within_band b" "0 \<le> battery_power b" "0 \<le> discharging_efficiency b"
    "0 \<le> p" "0 \<le> t"
  shows "within_band (snd (discharge b p t))"
proof -
  have "0 \<le> min p (battery_power b) * t * discharging_efficiency b"
    using assms by simp
  moreover have "same_config b (snd (discharge b p t))" by (rule discharge_config)
  ultimately show ?thesis
    using assms(1)
    by (simp add: within_band_def same_config_def discharge_energy[OF assms(4)] min_def)
qed

lemma apply_command_keeps:
  assumes "within_band b" "config_nonnegative b" "valid_command c"
  shows "within_band (apply_command b c) \<and> config_nonnegative (apply_command b c)"
proof (cases c)
  case (Charge p t)
  have "same_config b (snd (charge b p t))" by (rule charge_config)
  then show ?thesis
    using assms Charge
    by (simp add: config_nonnegative_def same_config_def charge_within_band)
next
  case (Discharge p t)
  have "same_config b (snd (discharge b p t))" by (rule discharge_config)
  then show ?thesis
    using assms Discharge
    by (simp add: config_nonnegative_def same_config_def discharge_within_band)
qed

text \<open>
  In exact arithmetic the clipping does what it is written for. For a battery whose
  power rating and two efficiencies are not negative and whose stored energy starts
  within \<open>[min_soc * battery_capacity, max_soc * battery_capacity]\<close>, and for every
  sequence of calls with powers and durations that are not negative, the stored
  energy is within that band after every call.
\<close>

lemma soc_band_in_exact_arithmetic:
  assumes "within_band b" and "config_nonnegative b" and "list_all valid_command cs"
  shows "list_all within_band (run_calls b cs)"
  using assms
proof (induction cs arbitrary: b)
  case Nil
  then show ?case by simp
next
  case (Cons c cs)
  then show ?case using apply_command_keeps[of b c] by simp
qed

subsection \<open>The band in binary64 arithmetic\<close>

lemma binary64_examples:
  "binary64 3 = 3 \<and> binary64 (1 / 2) = 1 / 2 \<and> binary64 (27 / 2) = 27 / 2 \<and>
   binary64 (1 / 10) = 3602879701896397 / 36028797018963968 \<and>
   binary64 (3 / 10) = 5404319552844595 / 18014398509481984 \<and>
   binary64 (9 / 10) = 8106479329266893 / 9007199254740992 \<and>
   binary64 (9007199254740993) = 9007199254740992 \<and>
   binary64 (9007199254740995) = 9007199254740996"
  by code_simp

lemma init64_small_battery:
  "init64 3 50 1 (binary64 (9 / 10)) (binary64 (9 / 10)) (binary64 (1 / 10)) 1
     = Inr small_battery"
  by code_simp

lemma init64_home_battery:
  "init64 (27 / 2) 50 (binary64 (3 / 10)) (binary64 (9 / 10)) (binary64 (9 / 10))
       (binary64 (1 / 10)) (binary64 (9 / 10))
     = Inr home_battery"
  by code_simp

lemma example_batteries_start_in_band:
  "config_in_bounds small_battery \<and> within_band small_battery \<and>
   within_band64 small_battery \<and>
   config_in_bounds home_battery \<and> within_band home_battery \<and>
   within_band64 home_battery"
  by code_simp

lemma discharge64_small_battery:
  "existing_energy (snd (discharge64 small_battery 50 1))
     = 337769972052787 / 1125899906842624 \<and>
   min_soc (snd (discharge64 small_battery 50 1))
     * battery_capacity (snd (discharge64 small_battery 50 1))
     = 10808639105689191 / 36028797018963968 \<and>
   mul64 (min_soc (snd (discharge64 small_battery 50 1)))
     (battery_capacity (snd (discharge64 small_battery 50 1)))
     = 1351079888211149 / 4503599627370496"
  by code_simp

lemma charge64_home_battery:
  "existing_energy (snd (charge64 home_battery 50 1))
     = 3419920967034471 / 281474976710656 \<and>
   max_soc (snd (charge64 home_battery 50 1))
     * battery_capacity (snd (charge64 home_battery 50 1))
     = 218874941890206111 / 18014398509481984 \<and>
   mul64 (max_soc (snd (charge64 home_battery 50 1)))
     (battery_capacity (snd (charge64 home_battery 50 1)))
     = 6839841934068941 / 562949953421312"
  by code_simp

lemma exact_calls_stay_in_band:
  "within_band (snd (discharge small_battery 50 1)) \<and>
   within_band (snd (charge home_battery 50 1))"
  by code_simp

text \<open>
  C1, where the code departs from it. Two batteries inside every bound of the data
  model, each starting inside its band, each given one call with a power of 50 kW for
  one hour.

  \<open>BatteryEnergyStorageSystem(3, 50, 1, 0.9, 0.9, 0.1, 1).discharge(50, 1)\<close>: the
  availability \<open>3 - 0.1 * 3\<close> rounds to \<open>2.7000000000000002\<close>, the delivery is clipped
  to it, and \<open>3 - 2.7000000000000002\<close> leaves \<open>0.2999999999999998\<close>, below
  \<open>min_soc * battery_capacity\<close>, which is \<open>0.30000000000000004\<close> as a float.

  \<open>BatteryEnergyStorageSystem(13.5, 50, 0.3, 0.9, 0.9, 0.1, 0.9).charge(50, 1)\<close>: the
  headroom \<open>12.15 - 4.05\<close> rounds to \<open>8.100000000000001\<close>, and \<open>4.05 + 8.100000000000001\<close>
  leaves \<open>12.150000000000002\<close>, above \<open>max_soc * battery_capacity\<close>, which is \<open>12.15\<close>.

  In both the stored energy is outside the band, whether the band's end is taken as
  the rounded or as the exact product; in exact arithmetic both calls end on the
  band's end.
\<close>

theorem soc_band_lost_to_rounding:
  "init64 3 50 1 (binary64 (9 / 10)) (binary64 (9 / 10)) (binary64 (1 / 10)) 1
     = Inr small_battery \<and>
   config_in_bounds small_battery \<and>
   within_band small_battery \<and> within_band64 small_battery \<and>
   existing_energy (snd (discharge64 small_battery 50 1))
     = 337769972052787 / 1125899906842624 \<and>
   \<not> within_band (snd (discharge64 small_battery 50 1)) \<and>
   \<not> within_band64 (snd (discharge64 small_battery 50 1)) \<and>
   within_band (snd (discharge small_battery 50 1)) \<and>
   init64 (27 / 2) 50 (binary64 (3 / 10)) (binary64 (9 / 10)) (binary64 (9 / 10))
       (binary64 (1 / 10)) (binary64 (9 / 10))
     = Inr home_battery \<and>
   config_in_bounds home_battery \<and>
   within_band home_battery \<and> within_band64 home_battery \<and>
   existing_energy (snd (charge64 home_battery 50 1))
     = 3419920967034471 / 281474976710656 \<and>
   \<not> within_band (snd (charge64 home_battery 50 1)) \<and>
   \<not> within_band64 (snd (charge64 home_battery 50 1)) \<and>
   within_band (snd (charge home_battery 50 1))"
  using example_batteries_start_in_band discharge64_small_battery charge64_home_battery
    exact_calls_stay_in_band init64_small_battery init64_home_battery
  by (simp add: within_band_def within_band64_def)

section \<open>The simulator: one hour\<close>

subsection \<open>A battery call that returned\<close>

lemma charge_Inr:
  assumes "charge b p t = (Inr (ap, ae, e, sc), b')"
  shows "ae \<le> charging_efficiency b * (min p (battery_power b) * t)"
    and "same_config b b'"
proof -
  show "same_config b b'" using charge_config[of b p t] assms by simp
  show "ae \<le> charging_efficiency b * (min p (battery_power b) * t)"
    using assms by (auto simp: charge_def Let_def split: if_splits)
qed

lemma discharge_Inr:
  assumes "discharge b p t = (Inr (ap, ae, e, sc), b')"
  shows "ae \<le> min p (battery_power b) * t * discharging_efficiency b"
    and "same_config b b'"
    and "0 \<le> p"
proof -
  show "same_config b b'" using discharge_config[of b p t] assms by simp
  show "ae \<le> min p (battery_power b) * t * discharging_efficiency b"
    using assms by (auto simp: discharge_def Let_def split: if_splits)
  show "0 \<le> p" using assms by (auto simp: discharge_def Let_def split: if_splits)
qed

lemma scaled_min_le:
  fixes x :: real
  assumes "0 \<le> k" "k \<le> 1" "0 \<le> x"
  shows "k * min x y \<le> x"
proof (cases "0 \<le> min x y")
  case True
  have "k * min x y \<le> 1 * min x y"
    using assms(2) True by (rule mult_right_mono)
  then show ?thesis by simp
next
  case False
  then have "min x y \<le> 0" by linarith
  then have "k * min x y \<le> 0"
    using assms(1) by (rule mult_nonneg_nonpos[rotated])
  then show ?thesis using assms(3) by linarith
qed

subsection \<open>The strategies that complete an hour\<close>

lemma simple_strategy_Inr:
  assumes "simple_strategy hour net s = (Inr u, s')"
  shows "hour_settled hour net s s'"
proof (cases "net > 0")
  case True
  with assms obtain ap ae e sc b' where
    c: "charge (battery s) net 1 = (Inr (ap, ae, e, sc), b')" and
    s': "s' = store_hour hour ae (net - ae)
               (s\<lparr>battery := b', trace := trace s @ [(hour, Invoke ChargeOp net)]\<rparr>)"
    by (auto simp: simple_strategy_def invoke_charge_def Let_def split: prod.splits sum.splits)
  have "efficiencies_in_unit (battery s) \<Longrightarrow> ae \<le> net"
    using charge_Inr(1)[OF c] True
      scaled_min_le[of "charging_efficiency (battery s)" net "battery_power (battery s)"]
    by (simp add: efficiencies_in_unit_def)
  then show ?thesis
    using True charge_Inr(2)[OF c]
    by (auto simp: hour_settled_def s' store_hour_def intro!: exI[of _ ae])
next
  case False
  with assms obtain ap ae e sc b' where
    c: "discharge (battery s) (- net) 1 = (Inr (ap, ae, e, sc), b')" and
    s': "s' = store_hour hour (- ae) (net + ae)
               (s\<lparr>battery := b', trace := trace s @ [(hour, Invoke DischargeOp (- net))]\<rparr>)"
    by (auto simp: simple_strategy_def invoke_discharge_def Let_def
          split: prod.splits sum.splits)
  have "efficiencies_in_unit (battery s) \<Longrightarrow> ae \<le> - net"
    using discharge_Inr(1)[OF c] False
      scaled_min_le[of "discharging_efficiency (battery s)" "- net" "battery_power (battery s)"]
    by (simp add: efficiencies_in_unit_def mult.commute)
  then show ?thesis
    using False discharge_Inr(2)[OF c]
    by (auto simp: hour_settled_def s' store_hour_def intro!: exI[of _ "- ae"])
qed

lemma medium_price_branch_Inr:
  assumes "medium_price_branch hour net s = (Inr u, s')"
  shows "hour_settled hour net s s'"
proof (cases "net > 0")
  case True
  with assms obtain ap ae e sc b' where
    c: "charge (battery s) net 1 = (Inr (ap, ae, e, sc), b')" and
    s': "s' = store_hour hour ae (net - ae)
               (s\<lparr>battery := b',
                   trace := trace s @ [(hour, Enter MediumPrice), (hour, Invoke ChargeOp net)]\<rparr>)"
    by (auto simp: medium_price_branch_def invoke_charge_def enter_def Let_def
          split: prod.splits sum.splits)
  have "efficiencies_in_unit (battery s) \<Longrightarrow> ae \<le> net"
    using charge_Inr(1)[OF c] True
      scaled_min_le[of "charging_efficiency (battery s)" net "battery_power (battery s)"]
    by (simp add: efficiencies_in_unit_def)
  then show ?thesis
    using True charge_Inr(2)[OF c]
    by (auto simp: hour_settled_def s' store_hour_def intro!: exI[of _ ae])
next
  case False
  with assms obtain ap ae e sc b' where
    c: "discharge (battery s) net 1 = (Inr (ap, ae, e, sc), b')" and
    s': "s' = store_hour hour (- ae) (net + ae)
               (s\<lparr>battery := b',
                   trace := trace s @ [(hour, Enter MediumPrice), (hour, Invoke DischargeOp net)]\<rparr>)"
    by (auto simp: medium_price_branch_def invoke_discharge_def enter_def Let_def
          split: prod.splits sum.splits)
  have net0: "net = 0" using discharge_Inr(3)[OF c] False by simp
  have "efficiencies_in_unit (battery s) \<Longrightarrow> ae \<le> - net"
    using discharge_Inr(1)[OF c] net0
      scaled_min_le[of "discharging_efficiency (battery s)" 0 "battery_power (battery s)"]
    by (simp add: efficiencies_in_unit_def mult.commute)
  then show ?thesis
    using False discharge_Inr(2)[OF c]
    by (auto simp: hour_settled_def s' store_hour_def intro!: exI[of _ "- ae"])
qed

subsection \<open>The two branches that never complete an hour\<close>

lemma low_price_branch_raises: "fst (low_price_branch hour net s) \<noteq> Inr u"
  by (simp add: low_price_branch_def Let_def split: prod.split sum.split)

lemma high_price_branch_raises: "fst (high_price_branch hour net s) \<noteq> Inr u"
  by (simp add: high_price_branch_def Let_def split: prod.split sum.split)

text \<open>
  Since the low-price branch always raises, the second \<open>if\<close> statement of the strategy
  is reached only when the first test failed: the strategy behaves as a chain of
  three exclusive branches.
\<close>

lemma price_arbitrage_strategy_branch:
  "price_arbitrage_strategy prices hour net price s =
     (if price \<le> percentile prices 25 then low_price_branch hour net s
      else if price > percentile prices 75 then high_price_branch hour net s
      else medium_price_branch hour net s)"
proof (cases "price \<le> percentile prices 25")
  case True
  obtain r s1 where low: "low_price_branch hour net s = (r, s1)"
    by (cases "low_price_branch hour net s")
  then obtain e where "r = Inl e"
    using low_price_branch_raises[of hour net s] by (cases r) auto
  then show ?thesis
    using True low by (simp add: price_arbitrage_strategy_def Let_def)
next
  case False
  then show ?thesis by (simp add: price_arbitrage_strategy_def Let_def)
qed

lemma price_arbitrage_strategy_Inr:
  assumes "price_arbitrage_strategy prices hour net price s = (Inr u, s')"
  shows "medium_price_branch hour net s = (Inr u, s')"
proof -
  have low: "\<not> price \<le> percentile prices 25"
    using assms low_price_branch_raises[of hour net s u]
    by (auto simp: price_arbitrage_strategy_branch)
  have high: "\<not> price > percentile prices 75"
    using assms low high_price_branch_raises[of hour net s u]
    by (auto simp: price_arbitrage_strategy_branch)
  show ?thesis
    using assms low high by (simp add: price_arbitrage_strategy_branch)
qed

subsection \<open>The body of the loop\<close>

lemma hour_body_Inr:
  assumes "hour_body cs gl prices net hour s = (Inr u, s')"
  shows "\<exists>s1.
    s' = s1\<lparr>electricity_cost :=
              (electricity_cost s1)[hour := grid_power s1 ! hour * prices ! hour]\<rparr> \<and>
    (known_strategy cs \<longrightarrow> hour_settled hour (net ! hour) s s1) \<and>
    (\<not> known_strategy cs \<longrightarrow> s1 = s)"
proof -
  let ?step = "if cs = ''simple'' then simple_strategy hour (net ! hour) s
               else if cs = ''price arbitrage''
               then price_arbitrage_strategy prices hour (net ! hour) (prices ! hour) s
               else (Inr (), s)"
  obtain r s1 where step: "?step = (r, s1)" by (cases ?step)
  have body: "hour_body cs gl prices net hour s =
      (case r of Inl e \<Rightarrow> (Inl e, s1)
       | Inr _ \<Rightarrow> (Inr (), s1\<lparr>electricity_cost :=
                      (electricity_cost s1)[hour := grid_power s1 ! hour * prices ! hour]\<rparr>))"
    unfolding hour_body_def Let_def step by (simp split: sum.split)
  from assms body have r: "r = Inr ()" and
    s': "s' = s1\<lparr>electricity_cost :=
                  (electricity_cost s1)[hour := grid_power s1 ! hour * prices ! hour]\<rparr>"
    by (auto split: sum.splits)
  have settled: "hour_settled hour (net ! hour) s s1" if "known_strategy cs"
  proof (cases "cs = ''simple''")
    case True
    then have "simple_strategy hour (net ! hour) s = (Inr (), s1)" using step r by simp
    then show ?thesis by (rule simple_strategy_Inr)
  next
    case False
    then have "cs = ''price arbitrage''" using that by (simp add: known_strategy_def)
    then have "price_arbitrage_strategy prices hour (net ! hour) (prices ! hour) s
                 = (Inr (), s1)"
      using step r by simp
    then have "medium_price_branch hour (net ! hour) s = (Inr (), s1)"
      by (rule price_arbitrage_strategy_Inr)
    then show ?thesis by (rule medium_price_branch_Inr)
  qed
  have same: "s1 = s" if "\<not> known_strategy cs"
    using that step by (simp add: known_strategy_def)
  show ?thesis using s' settled same by blast
qed

lemma hour_body_step:
  assumes run: "hour_body cs gl prices net hour s = (Inr u, s')"
    and len: "arrays_of_length n s" and h: "hour < n"
  shows "arrays_of_length n s'"
    and "same_config (battery s) (battery s')"
    and "i \<noteq> hour \<Longrightarrow> cells i s' = cells i s"
    and "hour_recorded cs (efficiencies_in_unit (battery s)) (net ! hour) (prices ! hour)
           (cells hour s')"
proof -
  from run obtain s1 where
    s': "s' = s1\<lparr>electricity_cost :=
                  (electricity_cost s1)[hour := grid_power s1 ! hour * prices ! hour]\<rparr>"
    and known: "known_strategy cs \<Longrightarrow> hour_settled hour (net ! hour) s s1"
    and unknown: "\<not> known_strategy cs \<Longrightarrow> s1 = s"
    using hour_body_Inr by blast
  show "arrays_of_length n s'"
    using len known unknown
    by (cases "known_strategy cs") (auto simp: s' arrays_of_length_def hour_settled_def)
  show "same_config (battery s) (battery s')"
    using known unknown
    by (cases "known_strategy cs") (auto simp: s' hour_settled_def same_config_def)
  show "cells i s' = cells i s" if "i \<noteq> hour"
    using that known unknown
    by (cases "known_strategy cs") (auto simp: s' cells_def hour_settled_def)
  show "hour_recorded cs (efficiencies_in_unit (battery s)) (net ! hour) (prices ! hour)
          (cells hour s')"
  proof (cases "known_strategy cs")
    case True
    from known[OF True] obtain moved where
      m: "energy_movement s1 = (energy_movement s)[hour := moved]"
         "grid_power s1 = (grid_power s)[hour := net ! hour - moved]"
         "electricity_cost s1 = electricity_cost s"
      and sign: "efficiencies_in_unit (battery s) \<longrightarrow>
           (net ! hour > 0 \<longrightarrow> moved \<le> net ! hour) \<and>
           (net ! hour \<le> 0 \<longrightarrow> net ! hour \<le> moved)"
      by (auto simp: hour_settled_def)
    show ?thesis
      using len h sign by (simp add: hour_recorded_def cells_def s' m arrays_of_length_def)
  next
    case False
    show ?thesis
      using len h False
      by (simp add: hour_recorded_def cells_def s' unknown[OF False] arrays_of_length_def)
  qed
qed

section \<open>The simulator: a whole run\<close>

lemma same_config_efficiencies:
  "same_config b b' \<Longrightarrow> efficiencies_in_unit b' = efficiencies_in_unit b"
  by (simp add: same_config_def efficiencies_in_unit_def)

lemma same_config_trans:
  "same_config b b' \<Longrightarrow> same_config b' b'' \<Longrightarrow> same_config b b''"
  by (simp add: same_config_def)

lemma same_config_refl: "same_config b b"
  by (simp add: same_config_def)

text \<open>
  The invariant of the loop: an hour writes its own cells and no others, so what an
  hour recorded is still there when the loop ends.
\<close>

lemma hours_loop_Inr:
  assumes "hours_loop cs gl prices net hs s = (Inr u, s')"
    and "distinct hs" and "\<forall>h\<in>set hs. h < n" and "arrays_of_length n s"
  shows "arrays_of_length n s' \<and> same_config (battery s) (battery s') \<and>
         (\<forall>i. i \<notin> set hs \<longrightarrow> cells i s' = cells i s) \<and>
         (\<forall>h\<in>set hs. hour_recorded cs (efficiencies_in_unit (battery s)) (net ! h)
                          (prices ! h) (cells h s'))"
  using assms
proof (induction hs arbitrary: s)
  case Nil
  then show ?case by (simp add: same_config_refl)
next
  case (Cons h hs)
  from Cons.prems(1) obtain u1 s1 where
    body: "hour_body cs gl prices net h s = (Inr u1, s1)" and
    rest: "hours_loop cs gl prices net hs s1 = (Inr u, s')"
    by (auto split: prod.splits sum.splits)
  have hn: "h < n" and hnot: "h \<notin> set hs" and dist: "distinct hs" and
    bound: "\<forall>k\<in>set hs. k < n"
    using Cons.prems(2,3) by simp_all
  note st = hour_body_step[OF body Cons.prems(4) hn]
  have ih: "arrays_of_length n s' \<and> same_config (battery s1) (battery s') \<and>
         (\<forall>i. i \<notin> set hs \<longrightarrow> cells i s' = cells i s1) \<and>
         (\<forall>k\<in>set hs. hour_recorded cs (efficiencies_in_unit (battery s1)) (net ! k)
                          (prices ! k) (cells k s'))"
    by (rule Cons.IH[OF rest dist bound st(1)])
  have eff: "efficiencies_in_unit (battery s1) = efficiencies_in_unit (battery s)"
    using st(2) by (rule same_config_efficiencies)
  have "cells h s' = cells h s1" using ih hnot by blast
  then have here: "hour_recorded cs (efficiencies_in_unit (battery s)) (net ! h) (prices ! h)
                     (cells h s')"
    using st(4) by simp
  have others: "\<forall>i. i \<notin> set (h # hs) \<longrightarrow> cells i s' = cells i s"
    using ih st(3) by simp
  show ?case
    using ih here others same_config_trans[OF st(2)] eff by auto
qed

lemma run_simulation_Inr:
  assumes "fst (run_simulation b pv dem prices cs gl) = Inr r"
  shows "length pv = length prices \<and> length dem = length prices \<and>
    (\<exists>u s'. hours_loop cs gl prices (map2 (\<lambda>pv demand. pv - demand) pv dem)
               [0..<length prices] (initial_state b (length prices)) = (Inr u, s') \<and>
            df_energy_movement r = energy_movement s' \<and>
            df_grid_power r = grid_power s' \<and>
            df_electricity_cost r = electricity_cost s')"
proof -
  have len: "length pv = length dem \<and> length dem = length prices"
    using assms by (auto simp: run_simulation_def split: if_splits)
  let ?net = "map2 (\<lambda>pv demand. pv - demand) pv dem"
  have n: "length ?net = length prices" using len by simp
  obtain o1 s' where loop: "hours_loop cs gl prices ?net [0..<length prices]
               (initial_state b (length prices)) = (o1, s')"
    by (cases "hours_loop cs gl prices ?net [0..<length prices]
                 (initial_state b (length prices))")
  have run: "run_simulation b pv dem prices cs gl =
     (case o1 of Inl e \<Rightarrow> (Inl e, battery s', trace s')
      | Inr _ \<Rightarrow> (Inr \<lparr> df_timestamp = [0..<length prices],
                      df_pv_generation = pv,
                      df_building_demand = dem,
                      df_electricity_prices = prices,
                      df_energy_movement = energy_movement s',
                      df_battery_soc = battery_soc s',
                      df_battery_energy = battery_energy s',
                      df_grid_power = grid_power s',
                      df_electricity_cost = electricity_cost s' \<rparr>,
                battery s', trace s'))"
    using len loop n unfolding run_simulation_def Let_def by (simp split: sum.split)
  show ?thesis
    using assms len loop unfolding run by (cases o1) auto
qed

lemma run_simulation_recorded:
  assumes run: "fst (run_simulation b pv dem prices cs gl) = Inr r" and h: "h < length prices"
  shows "hour_recorded cs (efficiencies_in_unit b) (pv ! h - dem ! h) (prices ! h)
           (df_energy_movement r ! h, df_grid_power r ! h, df_electricity_cost r ! h)"
proof -
  let ?net = "map2 (\<lambda>pv demand. pv - demand) pv dem"
  let ?n = "length prices"
  from run_simulation_Inr[OF run] obtain u s' where
    len: "length pv = ?n" "length dem = ?n" and
    loop: "hours_loop cs gl prices ?net [0..<?n] (initial_state b ?n) = (Inr u, s')" and
    cols: "df_energy_movement r = energy_movement s'" "df_grid_power r = grid_power s'"
          "df_electricity_cost r = electricity_cost s'"
    by blast
  have init: "arrays_of_length ?n (initial_state b ?n)"
    by (simp add: arrays_of_length_def initial_state_def zeros_def)
  have "\<forall>k\<in>set [0..<?n]. hour_recorded cs (efficiencies_in_unit (battery (initial_state b ?n)))
           (?net ! k) (prices ! k) (cells k s')"
    using hours_loop_Inr[OF loop _ _ init] by simp
  then have "hour_recorded cs (efficiencies_in_unit b) (?net ! h) (prices ! h) (cells h s')"
    using h by (simp add: initial_state_def)
  moreover have "?net ! h = pv ! h - dem ! h"
    using h len by simp
  ultimately show ?thesis by (simp add: cells_def cols)
qed

lemma example_run:
  "fst (run_simulation example_battery [10, 0, 0] [0, 5, 5] [2, 3, 4] ''simple'' None) =
     Inr example_results"
  by code_simp




text \<open>
  C9, as amended. For every run that returns its table, and every hour of it, the
  recorded cost is the recorded grid power times the price of the hour. Under the
  \<open>simple\<close> and \<open>price arbitrage\<close> strategies, with efficiencies between 0 and 1, the
  grid power of an hour with a surplus is not negative (what the battery did not take
  is exported) and that of an hour without a surplus is not positive (what the
  battery did not deliver is imported). So at a positive price an import is recorded
  as a negative cost and an export as a positive one.
\<close>

theorem cost_is_grid_power_times_price:
  assumes "fst (run_simulation b pv dem prices cs gl) = Inr r" and "h < length prices"
  shows "df_electricity_cost r ! h = df_grid_power r ! h * prices ! h \<and>
         (known_strategy cs \<and> efficiencies_in_unit b \<longrightarrow>
            (pv ! h - dem ! h > 0 \<longrightarrow> 0 \<le> df_grid_power r ! h) \<and>
            (pv ! h - dem ! h \<le> 0 \<longrightarrow> df_grid_power r ! h \<le> 0))"
  using run_simulation_recorded[OF assms]
  by (simp add: hour_recorded_def)

text \<open>
  C9, witnessed at the first hour of the example run, a surplus, and at the second, a
  deficit.
\<close>

theorem cost_is_grid_power_times_price_witness:
  "fst (run_simulation example_battery [10, 0, 0] [0, 5, 5] [2, 3, 4] ''simple'' None) =
     Inr example_results \<and>
   (0 :: nat) < length [2, 3, 4 :: real] \<and> (1 :: nat) < length [2, 3, 4 :: real] \<and>
   known_strategy ''simple'' \<and> efficiencies_in_unit example_battery \<and>
   df_electricity_cost example_results ! 0 = df_grid_power example_results ! 0 * [2, 3, 4] ! 0 \<and>
   [10, 0, 0] ! 0 - [0, 5, 5] ! 0 > (0 :: real) \<and> 0 \<le> df_grid_power example_results ! 0 \<and>
   df_electricity_cost example_results ! 1 = df_grid_power example_results ! 1 * [2, 3, 4] ! 1 \<and>
   [10, 0, 0] ! 1 - [0, 5, 5] ! 1 \<le> (0 :: real) \<and> df_grid_power example_results ! 1 \<le> 0"
proof -
  have eff: "efficiencies_in_unit example_battery"
    by (simp add: efficiencies_in_unit_def example_battery_def)
  show ?thesis
    using cost_is_grid_power_times_price [OF example_run, of 0]
      cost_is_grid_power_times_price [OF example_run, of 1] eff example_run
    by (simp add: known_strategy_def example_results_def)
qed

text \<open>
  C9 as stated fails on the sign. One hour with a demand of 5 kW and no PV, at the
  price 2: the battery delivers 4.5 kWh, the remaining 0.5 kWh is imported, and the
  run records a grid power of \<open>- 0.5\<close> and a cost of \<open>- 1\<close>, negative for an import.
\<close>

theorem import_cost_counterexample:
  "fst (run_simulation example_battery [0] [5] [2] ''simple'' None) =
     Inr \<lparr> df_timestamp = [0], df_pv_generation = [0], df_building_demand = [5],
           df_electricity_prices = [2], df_energy_movement = [- (9 / 2)],
           df_battery_soc = [91 / 200], df_battery_energy = [91 / 2],
           df_grid_power = [- (1 / 2)], df_electricity_cost = [- 1] \<rparr> \<and>
   df_electricity_cost
     (projr (fst (run_simulation example_battery [0] [5] [2] ''simple'' None))) ! 0 < 0"
  by code_simp


section \<open>The price arbitrage strategy\<close>

subsection \<open>The events of one hour\<close>

lemma low_price_branch_trace:
  "\<exists>p. trace (snd (low_price_branch hour net s)) =
         trace s @ map (Pair hour) [Enter LowPrice, Invoke ChargeOp p]"
  by (simp add: low_price_branch_def invoke_charge_def enter_def Let_def
        split: prod.split sum.split)

lemma high_price_branch_trace:
  "trace (snd (high_price_branch hour net s)) = trace s @ map (Pair hour) [Enter HighPrice] \<or>
   (\<exists>p. trace (snd (high_price_branch hour net s)) =
         trace s @ map (Pair hour) [Enter HighPrice, Invoke DischargeOp p])"
  by (simp add: high_price_branch_def invoke_discharge_def enter_def Let_def
        split: prod.split sum.split)

lemma medium_price_branch_trace:
  "\<exists>op p. trace (snd (medium_price_branch hour net s)) =
         trace s @ map (Pair hour) [Enter MediumPrice, Invoke op p]"
  by (simp add: medium_price_branch_def invoke_charge_def invoke_discharge_def enter_def
        store_hour_def Let_def split: prod.split sum.split)

lemma price_arbitrage_strategy_trace:
  "\<exists>es. trace (snd (price_arbitrage_strategy prices hour net price s)) =
          trace s @ map (Pair hour) es \<and>
        arbitrage_events (percentile prices 25) (percentile prices 75) price es"
proof -
  let ?low = "percentile prices 25" and ?high = "percentile prices 75"
  consider (low) "price \<le> ?low" | (high) "\<not> price \<le> ?low" "price > ?high"
    | (medium) "\<not> price \<le> ?low" "\<not> price > ?high"
    by blast
  then show ?thesis
  proof cases
    case low
    obtain p where "trace (snd (low_price_branch hour net s)) =
         trace s @ map (Pair hour) [Enter LowPrice, Invoke ChargeOp p]"
      using low_price_branch_trace by blast
    moreover have "arbitrage_events ?low ?high price [Enter LowPrice, Invoke ChargeOp p]"
      using low by (simp add: arbitrage_events_def)
    ultimately show ?thesis
      using low unfolding price_arbitrage_strategy_branch
      by (intro exI[of _ "[Enter LowPrice, Invoke ChargeOp p]"]) simp
  next
    case high
    have a: "arbitrage_events ?low ?high price [Enter HighPrice]"
      and b: "\<And>p. arbitrage_events ?low ?high price [Enter HighPrice, Invoke DischargeOp p]"
      using high by (simp_all add: arbitrage_events_def)
    from high_price_branch_trace[of hour net s] show ?thesis
    proof
      assume "trace (snd (high_price_branch hour net s)) =
                trace s @ map (Pair hour) [Enter HighPrice]"
      then show ?thesis
        using high a unfolding price_arbitrage_strategy_branch
        by (intro exI[of _ "[Enter HighPrice]"]) simp
    next
      assume "\<exists>p. trace (snd (high_price_branch hour net s)) =
         trace s @ map (Pair hour) [Enter HighPrice, Invoke DischargeOp p]"
      then obtain p where "trace (snd (high_price_branch hour net s)) =
         trace s @ map (Pair hour) [Enter HighPrice, Invoke DischargeOp p]" by blast
      then show ?thesis
        using high b[of p] unfolding price_arbitrage_strategy_branch
        by (intro exI[of _ "[Enter HighPrice, Invoke DischargeOp p]"]) simp
    qed
  next
    case medium
    obtain op p where "trace (snd (medium_price_branch hour net s)) =
         trace s @ map (Pair hour) [Enter MediumPrice, Invoke op p]"
      using medium_price_branch_trace by blast
    moreover have "arbitrage_events ?low ?high price [Enter MediumPrice, Invoke op p]"
      using medium by (simp add: arbitrage_events_def)
    ultimately show ?thesis
      using medium unfolding price_arbitrage_strategy_branch
      by (intro exI[of _ "[Enter MediumPrice, Invoke op p]"]) simp
  qed
qed

lemma hour_body_trace:
  "trace (snd (hour_body ''price arbitrage'' gl prices net hour s)) =
   trace (snd (price_arbitrage_strategy prices hour (net ! hour) (prices ! hour) s))"
  by (simp add: hour_body_def Let_def split: prod.split sum.split)

subsection \<open>The events of a run\<close>

lemma arbitrage_events_Nil: "arbitrage_events low high price []"
  by (simp add: arbitrage_events_def)

lemma events_of_hour_append:
  "events_of_hour k (xs @ ys) = events_of_hour k xs @ events_of_hour k ys"
  by (simp add: events_of_hour_def)

lemma events_of_hour_same: "events_of_hour k (map (Pair k) es) = es"
  by (induction es) (simp_all add: events_of_hour_def)

lemma events_of_hour_other: "\<forall>x\<in>set xs. fst x \<noteq> k \<Longrightarrow> events_of_hour k xs = []"
  by (induction xs) (simp_all add: events_of_hour_def)

lemma hours_loop_trace:
  assumes "distinct hs"
  shows "\<exists>es. trace (snd (hours_loop ''price arbitrage'' gl prices net hs s)) = trace s @ es \<and>
           (\<forall>x\<in>set es. fst x \<in> set hs) \<and>
           (\<forall>k. arbitrage_events (percentile prices 25) (percentile prices 75) (prices ! k)
                  (events_of_hour k es))"
  using assms
proof (induction hs arbitrary: s)
  case Nil
  then show ?case by (simp add: events_of_hour_def arbitrage_events_Nil)
next
  case (Cons h hs)
  let ?low = "percentile prices 25" and ?high = "percentile prices 75"
  obtain r s1 where body: "hour_body ''price arbitrage'' gl prices net h s = (r, s1)"
    by (cases "hour_body ''price arbitrage'' gl prices net h s")
  obtain es1 where es1: "trace s1 = trace s @ map (Pair h) es1"
      "arbitrage_events ?low ?high (prices ! h) es1"
    using price_arbitrage_strategy_trace[of prices h "net ! h" "prices ! h" s]
      hour_body_trace[of gl prices net h s] body by auto
  have own: "events_of_hour k (map (Pair h) es1) = (if k = h then es1 else [])" for k
    by (auto simp: events_of_hour_same intro: events_of_hour_other)
  show ?case
  proof (cases r)
    case (Inl e)
    then have "hours_loop ''price arbitrage'' gl prices net (h # hs) s = (Inl e, s1)"
      using body by simp
    then show ?thesis
      using es1 own by (intro exI[of _ "map (Pair h) es1"]) (auto simp: arbitrage_events_Nil)
  next
    case (Inr u)
    then have loop: "hours_loop ''price arbitrage'' gl prices net (h # hs) s =
        hours_loop ''price arbitrage'' gl prices net hs s1"
      using body by simp
    from Cons.prems have dist: "distinct hs" and hnot: "h \<notin> set hs" by simp_all
    from Cons.IH[OF dist, of s1] obtain es2 where
      es2: "trace (snd (hours_loop ''price arbitrage'' gl prices net hs s1)) = trace s1 @ es2"
        "\<forall>x\<in>set es2. fst x \<in> set hs"
        "\<forall>k. arbitrage_events ?low ?high (prices ! k) (events_of_hour k es2)"
      by blast
    have h2: "events_of_hour h es2 = []"
      using es2(2) hnot by (intro events_of_hour_other) auto
    have "arbitrage_events ?low ?high (prices ! k)
            (events_of_hour k (map (Pair h) es1 @ es2))" for k
      using es1(2) es2(3) h2 by (cases "k = h") (simp_all add: events_of_hour_append own)
    then show ?thesis
      unfolding loop using es1(1) es2(1,2)
      by (intro exI[of _ "map (Pair h) es1 @ es2"]) auto
  qed
qed

lemma run_simulation_trace:
  "snd (snd (run_simulation b pv dem prices cs gl)) =
     (if length pv = length dem \<and> length dem = length prices
      then trace (snd (hours_loop cs gl prices (map2 (\<lambda>pv demand. pv - demand) pv dem)
                     [0..<length prices] (initial_state b (length prices))))
      else [])"
  by (simp add: run_simulation_def Let_def split: prod.split sum.split)

text \<open>
  C3. Under the \<open>price arbitrage\<close> strategy, in every hour of every run, completed or
  not, at most one call of \<open>charge\<close> or \<open>discharge\<close> is made and at most one of the three
  price branches is entered: the low-price branch only at a price up to the low
  threshold, the high-price branch only at a price above both thresholds, and the
  branch with the text of the \<open>simple\<close> strategy only at a price above the low
  threshold and not above the high one. The low-price and the high-price branch each
  end the hour with an exception, which is why the second \<open>if\<close> statement never runs
  after the first.
\<close>

theorem at_most_one_battery_call_per_hour:
  "length (invocations h
     (snd (snd (run_simulation b pv dem prices ''price arbitrage'' gl)))) \<le> 1 \<and>
   length (branches_entered h
     (snd (snd (run_simulation b pv dem prices ''price arbitrage'' gl)))) \<le> 1 \<and>
   (Enter LowPrice \<in> set (events_of_hour h
        (snd (snd (run_simulation b pv dem prices ''price arbitrage'' gl)))) \<longrightarrow>
      prices ! h \<le> percentile prices 25) \<and>
   (Enter HighPrice \<in> set (events_of_hour h
        (snd (snd (run_simulation b pv dem prices ''price arbitrage'' gl)))) \<longrightarrow>
      percentile prices 25 < prices ! h \<and> percentile prices 75 < prices ! h) \<and>
   (Enter MediumPrice \<in> set (events_of_hour h
        (snd (snd (run_simulation b pv dem prices ''price arbitrage'' gl)))) \<longrightarrow>
      percentile prices 25 < prices ! h \<and> prices ! h \<le> percentile prices 75)"
proof (cases "length pv = length dem \<and> length dem = length prices")
  case False
  then show ?thesis
    by (auto simp: run_simulation_trace invocations_def branches_entered_def
          events_of_hour_def)
next
  case True
  let ?net = "map2 (\<lambda>pv demand. pv - demand) pv dem"
  let ?s0 = "initial_state b (length prices)"
  obtain es where
    es: "trace (snd (hours_loop ''price arbitrage'' gl prices ?net [0..<length prices] ?s0))
           = trace ?s0 @ es"
      "\<forall>k. arbitrage_events (percentile prices 25) (percentile prices 75) (prices ! k)
                  (events_of_hour k es)"
    using hours_loop_trace[of "[0..<length prices]" gl prices ?net ?s0] by auto
  have T: "snd (snd (run_simulation b pv dem prices ''price arbitrage'' gl)) = es"
    using True es(1) by (simp add: run_simulation_trace initial_state_def)
  show ?thesis
    using es(2)[rule_format, of h] unfolding T
    by (simp add: arbitrage_events_def invocations_def branches_entered_def)
qed

text \<open>
  C3, witnessed by two runs with the thresholds 1.5 and 2.5. On the prices
  \<open>[2, 1, 3]\<close> the first hour is a medium-price hour with a surplus and the second a
  low-price hour, at which the run ends. On the prices \<open>[3, 1, 2]\<close> the first hour is a
  high-price hour, which ends the run before any battery call.
\<close>

theorem at_most_one_battery_call_per_hour_witness:
  "snd (snd (run_simulation example_battery [10, 0, 0] [0, 5, 5] [2, 1, 3]
               ''price arbitrage'' None)) =
     [(0, Enter MediumPrice), (0, Invoke ChargeOp 10),
      (1, Enter LowPrice), (1, Invoke ChargeOp 50)] \<and>
   Enter MediumPrice \<in> set (events_of_hour 0
     [(0, Enter MediumPrice), (0, Invoke ChargeOp 10),
      (1, Enter LowPrice), (1, Invoke ChargeOp 50)]) \<and>
   percentile [2, 1, 3] 25 < [2, 1, 3] ! 0 \<and> [2, 1, 3] ! 0 \<le> percentile [2, 1, 3] 75 \<and>
   length (invocations 0
     [(0, Enter MediumPrice), (0, Invoke ChargeOp 10),
      (1, Enter LowPrice), (1, Invoke ChargeOp 50)]) \<le> 1 \<and>
   Enter LowPrice \<in> set (events_of_hour 1
     [(0, Enter MediumPrice), (0, Invoke ChargeOp 10),
      (1, Enter LowPrice), (1, Invoke ChargeOp 50)]) \<and>
   [2, 1, 3] ! 1 \<le> percentile [2, 1, 3] 25 \<and>
   snd (snd (run_simulation example_battery [10, 0, 0] [0, 5, 5] [3, 1, 2]
               ''price arbitrage'' None)) = [(0, Enter HighPrice)] \<and>
   Enter HighPrice \<in> set (events_of_hour 0 [(0, Enter HighPrice)]) \<and>
   percentile [3, 1, 2] 25 < [3, 1, 2] ! 0 \<and> percentile [3, 1, 2] 75 < [3, 1, 2] ! 0"
proof -
  let ?T = "[(0, Enter MediumPrice), (0, Invoke ChargeOp 10),
             (1, Enter LowPrice), (1, Invoke ChargeOp 50)]"
  have T: "snd (snd (run_simulation example_battery [10, 0, 0] [0, 5, 5] [2, 1, 3]
               ''price arbitrage'' None)) = ?T"
    by code_simp
  have U: "snd (snd (run_simulation example_battery [10, 0, 0] [0, 5, 5] [3, 1, 2]
               ''price arbitrage'' None)) = [(0, Enter HighPrice)]"
    by code_simp
  have E: "Enter MediumPrice \<in> set (events_of_hour 0 ?T)"
    "Enter LowPrice \<in> set (events_of_hour 1 ?T)"
    "Enter HighPrice \<in> set (events_of_hour 0 [(0, Enter HighPrice)])"
    by (simp_all add: events_of_hour_def)
  note medium = at_most_one_battery_call_per_hour
      [of 0 example_battery "[10, 0, 0]" "[0, 5, 5]" "[2, 1, 3]" None, unfolded T]
  note low = at_most_one_battery_call_per_hour
      [of 1 example_battery "[10, 0, 0]" "[0, 5, 5]" "[2, 1, 3]" None, unfolded T]
  note high = at_most_one_battery_call_per_hour
      [of 0 example_battery "[10, 0, 0]" "[0, 5, 5]" "[3, 1, 2]" None, unfolded U]
  show ?thesis
    unfolding T U using medium low high E by simp
qed

subsection \<open>A run on at least one price never returns its table\<close>

text \<open>
  The least price of a series is at most its 25th percentile, so a series that is not
  empty has a low-price hour, and the run fails there at the latest.
\<close>

lemma percentile_ge_min:
  assumes "xs \<noteq> []" "0 \<le> q" "q \<le> 100"
  shows "Min (set xs) \<le> percentile xs q"
proof -
  define n where "n = length (sort xs)"
  define pos where "pos = q / 100 * real (n - 1)"
  define i where "i = nat \<lfloor>pos\<rfloor>"
  define j where "j = min (i + 1) (n - 1)"
  have perc: "percentile xs q = sort xs ! i + (sort xs ! j - sort xs ! i) * (pos - real i)"
    by (simp add: percentile_def Let_def n_def pos_def i_def j_def)
  have n: "0 < n" using assms(1) by (simp add: n_def)
  have pos0: "0 \<le> pos" using assms(2) by (simp add: pos_def)
  have "q / 100 \<le> 1" using assms(3) by simp
  then have "pos \<le> 1 * real (n - 1)"
    unfolding pos_def by (rule mult_right_mono) simp
  then have "\<lfloor>pos\<rfloor> \<le> int (n - 1)" by (simp add: floor_le_iff)
  then have i: "i \<le> n - 1" by (simp add: i_def)
  have i_lt: "i < n" using i n by linarith
  have ij: "i \<le> j" using i by (simp add: j_def)
  have j_lt: "j < n" using n by (simp add: j_def)
  have up: "sort xs ! i \<le> sort xs ! j"
    using ij j_lt by (intro sorted_nth_mono) (simp_all add: n_def)
  have "0 \<le> \<lfloor>pos\<rfloor>" using pos0 by simp
  then have "real i = of_int \<lfloor>pos\<rfloor>" by (simp add: i_def)
  then have gamma: "0 \<le> pos - real i" by linarith
  have "sort xs ! i \<in> set (sort xs)" using i_lt by (intro nth_mem) (simp add: n_def)
  then have low: "Min (set xs) \<le> sort xs ! i" by simp
  have "0 \<le> (sort xs ! j - sort xs ! i) * (pos - real i)"
    using up gamma by simp
  then show ?thesis
    using low unfolding perc by linarith
qed

lemma hour_body_low_price_raises:
  assumes "prices ! hour \<le> percentile prices 25"
  shows "isl (fst (hour_body ''price arbitrage'' gl prices net hour s))"
proof -
  obtain r s1 where low: "low_price_branch hour (net ! hour) s = (r, s1)"
    by (cases "low_price_branch hour (net ! hour) s")
  then obtain e where "r = Inl e"
    using low_price_branch_raises[of hour "net ! hour" s] by (cases r) auto
  then show ?thesis
    using assms low by (simp add: hour_body_def price_arbitrage_strategy_branch Let_def)
qed

lemma hours_loop_low_price_raises:
  assumes "k \<in> set hs" "prices ! k \<le> percentile prices 25"
  shows "isl (fst (hours_loop ''price arbitrage'' gl prices net hs s))"
  using assms(1)
proof (induction hs arbitrary: s)
  case Nil
  then show ?case by simp
next
  case (Cons h hs)
  obtain r s1 where body: "hour_body ''price arbitrage'' gl prices net h s = (r, s1)"
    by (cases "hour_body ''price arbitrage'' gl prices net h s")
  show ?case
  proof (cases r)
    case (Inl e)
    then show ?thesis using body by simp
  next
    case (Inr u)
    then have "h \<noteq> k"
      using hour_body_low_price_raises[OF assms(2), of gl net s] body by auto
    then have "k \<in> set hs" using Cons.prems by simp
    then show ?thesis using Cons.IH body Inr by simp
  qed
qed

lemma price_arbitrage_never_completes:
  assumes "prices \<noteq> []"
  shows "isl (fst (run_simulation b pv dem prices ''price arbitrage'' gl))"
proof (cases "length pv = length dem \<and> length dem = length prices")
  case False
  then show ?thesis by (auto simp: run_simulation_def)
next
  case True
  have "Min (set prices) \<in> set prices" using assms by (intro Min_in) simp_all
  then obtain k where k: "k < length prices" "prices ! k = Min (set prices)"
    by (auto simp: in_set_conv_nth)
  have low: "prices ! k \<le> percentile prices 25"
    using percentile_ge_min[OF assms, of 25] k(2) by simp
  have "k \<in> set [0..<length prices]" using k(1) by simp
  then have "isl (fst (hours_loop ''price arbitrage'' gl prices
      (map2 (\<lambda>pv demand. pv - demand) pv dem) [0..<length prices]
      (initial_state b (length prices))))"
    using low by (rule hours_loop_low_price_raises)
  then show ?thesis
    using True by (auto simp: run_simulation_def Let_def split: prod.split sum.split)
qed

subsection \<open>The medium-price hour against the simple strategy\<close>

text \<open>
  Without a deficit the medium-price branch does what the \<open>simple\<close> strategy does: with
  a surplus the two texts are the same, and a net load of zero asks \<open>discharge\<close> for 0
  in both.
\<close>

lemma medium_price_branch_without_deficit:
  assumes "0 \<le> net"
  shows "fst (medium_price_branch hour net s) = fst (simple_strategy hour net s) \<and>
         agree_but_trace (snd (medium_price_branch hour net s))
           (snd (simple_strategy hour net s))"
proof -
  consider (surplus) "net > 0" | (none) "net = 0" using assms by linarith
  then show ?thesis
  proof cases
    case surplus
    then show ?thesis
      by (simp add: medium_price_branch_def simple_strategy_def invoke_charge_def enter_def
            store_hour_def get_battery_state_def agree_but_trace_def Let_def
            split: prod.split sum.split)
  next
    case none
    then show ?thesis
      by (simp add: medium_price_branch_def simple_strategy_def invoke_discharge_def enter_def
            store_hour_def get_battery_state_def agree_but_trace_def Let_def
            split: prod.split sum.split)
  qed
qed

lemma medium_price_hour_without_deficit:
  assumes "percentile prices 25 < prices ! hour" "prices ! hour \<le> percentile prices 75"
    and "0 \<le> net ! hour"
  shows "fst (hour_body ''price arbitrage'' gl prices net hour s)
           = fst (hour_body ''simple'' gl prices net hour s) \<and>
         agree_but_trace (snd (hour_body ''price arbitrage'' gl prices net hour s))
           (snd (hour_body ''simple'' gl prices net hour s))"
proof -
  have pa: "price_arbitrage_strategy prices hour (net ! hour) (prices ! hour) s
      = medium_price_branch hour (net ! hour) s"
    using assms(1,2) by (simp add: price_arbitrage_strategy_branch)
  obtain r1 s1 where m: "medium_price_branch hour (net ! hour) s = (r1, s1)"
    by (cases "medium_price_branch hour (net ! hour) s")
  obtain r2 s2 where b: "simple_strategy hour (net ! hour) s = (r2, s2)"
    by (cases "simple_strategy hour (net ! hour) s")
  have r: "r1 = r2" and st: "agree_but_trace s1 s2"
    using medium_price_branch_without_deficit[OF assms(3), of hour s] m b by simp_all
  show ?thesis
    using r st
    by (cases r2) (simp_all add: hour_body_def Let_def pa m b agree_but_trace_def)
qed

text \<open>
  C8, where the code departs from it. An hour at the medium price 2 (thresholds 1.5
  and 2.5) with a deficit of 5 kW, from the same state. The \<open>simple\<close> strategy calls
  \<open>discharge(5)\<close>, which delivers 4.5 kWh, and records a movement of \<open>- 4.5\<close>, a grid
  power of \<open>- 0.5\<close> and a cost of \<open>- 1\<close>. The \<open>price arbitrage\<close> strategy calls
  \<open>discharge(-5)\<close>, which raises \<open>ValueError\<close>: the battery keeps its 50 kWh and nothing
  is recorded.
\<close>

theorem medium_price_deficit_diverges:
  "percentile [2, 1, 3] 25 < [2, 1, 3] ! 0 \<and> [2, 1, 3] ! 0 < percentile [2, 1, 3] 75 \<and>
   fst (hour_body ''simple'' None [2, 1, 3] [- 5, 0, 0] 0 (initial_state example_battery 3))
     = Inr () \<and>
   trace (snd (hour_body ''simple'' None [2, 1, 3] [- 5, 0, 0] 0
                 (initial_state example_battery 3)))
     = [(0, Invoke DischargeOp 5)] \<and>
   cells 0 (snd (hour_body ''simple'' None [2, 1, 3] [- 5, 0, 0] 0
                   (initial_state example_battery 3)))
     = (- (9 / 2), - (1 / 2), - 1) \<and>
   existing_energy (battery (snd (hour_body ''simple'' None [2, 1, 3] [- 5, 0, 0] 0
                                    (initial_state example_battery 3))))
     = 91 / 2 \<and>
   fst (hour_body ''price arbitrage'' None [2, 1, 3] [- 5, 0, 0] 0
          (initial_state example_battery 3))
     = Inl (ValueError ''Discharging power must be positive!'') \<and>
   trace (snd (hour_body ''price arbitrage'' None [2, 1, 3] [- 5, 0, 0] 0
                 (initial_state example_battery 3)))
     = [(0, Enter MediumPrice), (0, Invoke DischargeOp (- 5))] \<and>
   cells 0 (snd (hour_body ''price arbitrage'' None [2, 1, 3] [- 5, 0, 0] 0
                   (initial_state example_battery 3)))
     = (0, 0, 0) \<and>
   existing_energy (battery (snd (hour_body ''price arbitrage'' None [2, 1, 3] [- 5, 0, 0] 0
                                    (initial_state example_battery 3))))
     = 50"
  by code_simp

end
